theory Spec2Isabelle
  imports Complex_Main "HOL-Library.AList" "HOL-Library.Log_Nat"
begin

section \<open>Behavioral memory store (class MemorySystem)\<close>

subsection \<open>JavaScript numbers\<close>

text \<open>
  A JavaScript number is an IEEE 754 double. The finite ones are rationals, and an
  arithmetic operation returns the exact result rounded to the nearest double, ties to the
  even significand. \<open>binary_exponent x\<close> is the \<open>e\<close> with \<open>2^e \<le> |x| < 2^(e+1)\<close> (lemma
  \<open>binary_exponent_bounds\<close>); \<open>fl\<close> rounds to 53 significant bits, and to multiples of
  \<open>2^-1074\<close> in the subnormal range; a result that reaches \<open>2^1024\<close> is an infinity. The two
  zeros are not told apart.
\<close>

datatype number = Num rat | NaN | PosInfinity | NegInfinity

definition round_half_even :: "rat \<Rightarrow> int" where
  "round_half_even y =
     (let f = \<lfloor>y\<rfloor>; d = y - of_int f
      in if d < 1/2 then f else if d > 1/2 then f + 1 else if even f then f else f + 1)"

definition binary_exponent :: "rat \<Rightarrow> int" where
  "binary_exponent x =
     (let (p, q) = quotient_of \<bar>x\<bar>;
          k = bitlen p - bitlen q
      in if 2 powi k \<le> \<bar>x\<bar> then k else k - 1)"

definition fl :: "rat \<Rightarrow> rat" where
  "fl x =
     (if x = 0 then 0
      else (let q = max (binary_exponent x - 52) (- 1074)
            in of_int (round_half_even (x / 2 powi q)) * 2 powi q))"

definition to_number :: "rat \<Rightarrow> number" where
  "to_number x =
     (let y = fl x
      in if y \<ge> 2 powi 1024 then PosInfinity
         else if y \<le> - (2 powi 1024) then NegInfinity
         else Num y)"

fun js_neg :: "number \<Rightarrow> number" where
  "js_neg (Num a) = Num (- a)"
| "js_neg NaN = NaN"
| "js_neg PosInfinity = NegInfinity"
| "js_neg NegInfinity = PosInfinity"

fun js_add :: "number \<Rightarrow> number \<Rightarrow> number" where
  "js_add (Num a) (Num b) = to_number (a + b)"
| "js_add NaN _ = NaN"
| "js_add _ NaN = NaN"
| "js_add PosInfinity NegInfinity = NaN"
| "js_add NegInfinity PosInfinity = NaN"
| "js_add PosInfinity _ = PosInfinity"
| "js_add _ PosInfinity = PosInfinity"
| "js_add NegInfinity _ = NegInfinity"
| "js_add _ NegInfinity = NegInfinity"

definition js_sub :: "number \<Rightarrow> number \<Rightarrow> number" where
  "js_sub a b = js_add a (js_neg b)"

definition infinity_times :: "bool \<Rightarrow> rat \<Rightarrow> number" where
  "infinity_times positive b =
     (if b = 0 then NaN else if (0 < b) = positive then PosInfinity else NegInfinity)"

fun js_mul :: "number \<Rightarrow> number \<Rightarrow> number" where
  "js_mul (Num a) (Num b) = to_number (a * b)"
| "js_mul NaN _ = NaN"
| "js_mul _ NaN = NaN"
| "js_mul PosInfinity (Num b) = infinity_times True b"
| "js_mul NegInfinity (Num b) = infinity_times False b"
| "js_mul (Num a) PosInfinity = infinity_times True a"
| "js_mul (Num a) NegInfinity = infinity_times False a"
| "js_mul PosInfinity PosInfinity = PosInfinity"
| "js_mul NegInfinity NegInfinity = PosInfinity"
| "js_mul PosInfinity NegInfinity = NegInfinity"
| "js_mul NegInfinity PosInfinity = NegInfinity"

subsection \<open>The store\<close>

text \<open>
  The interfaces \<open>ProductivitySession\<close> and \<open>UserProfile\<close> as records. Timestamps are the
  millisecond values of \<open>Date.now()\<close>; counters start at 0 and are only ever incremented.
  The effectiveness rate is a JavaScript number, computed in double arithmetic.
\<close>

record ProductivitySession =
  startTime :: int
  endTime :: "int option"
  wasProductive :: bool
  interventionsCount :: nat
  activitySummary :: string

text \<open>
  \<open>Record<number, number>\<close>: a JavaScript object keyed by hour. It is kept as an
  association list; a key is read with \<open>map_of\<close> and written with \<open>AList.update\<close>, which
  replaces the value of a key that is present and adds the key otherwise.
\<close>

type_synonym hours_map = "(nat \<times> nat) list"

record UserProfile =
  productiveHoursMap :: hours_map
  unproductiveHoursMap :: hours_map
  interventionEffectivenessRate :: number
  totalSessions :: nat
  productiveSessions :: nat
  totalInterventions :: nat
  lastUpdated :: int

record MemorySystem =
  sessions :: "ProductivitySession list"
  currentSession :: "ProductivitySession option"
  userProfile :: UserProfile

datatype error = NotFound | SyntaxError | TypeError | WriteFailed | NoJsonFound | InvalidStructure | BackendFailed

text \<open>
  The file \<open>./procrastination_memory.json\<close>. What \<open>load\<close> can meet there: the read
  throws (no file), \<open>JSON.parse\<close> throws, the text is the JSON literal \<open>null\<close>, or the text
  parses to a document of the logical shape \<open>{sessions, userProfile}\<close>, where either
  property may be absent (or falsy), which is \<open>None\<close> here.
\<close>

record memory_doc =
  doc_sessions :: "ProductivitySession list option"
  doc_userProfile :: "UserProfile option"

datatype memory_file = Missing | Unparseable | ParsedNull | Document memory_doc

text \<open>
  The outcome of \<open>Deno.writeTextFile\<close> is an input from the environment: the write
  succeeds, or it throws and leaves the file in some state.
\<close>

datatype write_outcome = Written | Failed memory_file

text \<open>The constructor; its argument is the value of \<open>Date.now()\<close>.\<close>

definition MemorySystem_new :: "int \<Rightarrow> MemorySystem" where
  "MemorySystem_new now =
     \<lparr>sessions = [], currentSession = None,
      userProfile = \<lparr>productiveHoursMap = [], unproductiveHoursMap = [],
        interventionEffectivenessRate = Num (1/2), totalSessions = 0, productiveSessions = 0,
        totalInterventions = 0, lastUpdated = now\<rparr>\<rparr>"

text \<open>The body of the \<open>try\<close> block of \<open>load\<close>: every throw is an \<open>Inl\<close>.\<close>

definition load_try :: "memory_file \<Rightarrow> MemorySystem \<Rightarrow> error + MemorySystem" where
  "load_try f ms =
     (case f of
        Missing \<Rightarrow> Inl NotFound
      | Unparseable \<Rightarrow> Inl SyntaxError
      | ParsedNull \<Rightarrow> Inl TypeError
      | Document memory \<Rightarrow>
          Inr (ms\<lparr>sessions := (case doc_sessions memory of None \<Rightarrow> [] | Some s \<Rightarrow> s),
                  userProfile := (case doc_userProfile memory of
                                    None \<Rightarrow> userProfile ms | Some p \<Rightarrow> p)\<rparr>))"

text \<open>\<open>load\<close>: the \<open>catch\<close> clause only logs, so the state is the one before the call.\<close>

definition load :: "memory_file \<Rightarrow> MemorySystem \<Rightarrow> error + MemorySystem" where
  "load f ms = (case load_try f ms of Inl e \<Rightarrow> Inr ms | Inr ms' \<Rightarrow> Inr ms')"

text \<open>\<open>save\<close>: writes \<open>{sessions, userProfile}\<close> as one document; a failed write is rethrown.\<close>

definition save :: "write_outcome \<Rightarrow> MemorySystem \<Rightarrow> memory_file \<Rightarrow> (error + unit) \<times> memory_file" where
  "save w ms disk =
     (case w of
        Written \<Rightarrow>
          (Inr (), Document \<lparr>doc_sessions = Some (sessions ms),
                             doc_userProfile = Some (userProfile ms)\<rparr>)
      | Failed disk' \<Rightarrow> (Inl WriteFailed, disk'))"

definition startSession ::
  "int \<Rightarrow> write_outcome \<Rightarrow> MemorySystem \<Rightarrow> memory_file \<Rightarrow> (error + unit) \<times> MemorySystem \<times> memory_file" where
  "startSession now w ms disk =
     (let ms' = ms\<lparr>currentSession :=
                   Some \<lparr>startTime = now, endTime = None, wasProductive = True,
                         interventionsCount = 0, activitySummary = []\<rparr>\<rparr>;
          (r, disk') = save w ms' disk
      in (r, ms', disk'))"

text \<open>\<open>(map[hour] || 0) + 1\<close>\<close>

definition hours_get :: "hours_map \<Rightarrow> nat \<Rightarrow> nat" where
  "hours_get m hour = (case map_of m hour of None \<Rightarrow> 0 | Some c \<Rightarrow> c)"

definition hours_incr :: "nat \<Rightarrow> hours_map \<Rightarrow> hours_map" where
  "hours_incr hour m = AList.update hour (hours_get m hour + 1) m"

text \<open>
  \<open>updateUserProfile\<close>. \<open>getHours\<close> stands for \<open>new Date(t).getHours()\<close>, the local hour
  of a timestamp, which depends on the time zone of the host; \<open>now\<close> is \<open>Date.now()\<close>.
\<close>

definition updateUserProfile ::
  "(int \<Rightarrow> nat) \<Rightarrow> int \<Rightarrow> ProductivitySession \<Rightarrow> UserProfile \<Rightarrow> UserProfile" where
  "updateUserProfile getHours now session p =
     (let hour = getHours (startTime session);
          p' = (if wasProductive session
                then p\<lparr>productiveSessions := productiveSessions p + 1,
                       productiveHoursMap := hours_incr hour (productiveHoursMap p)\<rparr>
                else p\<lparr>unproductiveHoursMap := hours_incr hour (unproductiveHoursMap p)\<rparr>)
      in p'\<lparr>totalSessions := totalSessions p' + 1, lastUpdated := now\<rparr>)"

text \<open>\<open>xs.slice(-100)\<close>: the last 100 elements, all of them when there are fewer.\<close>

definition slice_last :: "nat \<Rightarrow> 'a list \<Rightarrow> 'a list" where
  "slice_last k xs = drop (length xs - k) xs"

text \<open>
  \<open>endSession\<close>. \<open>Date.now()\<close> is read twice: \<open>now_end\<close> for \<open>endTime\<close>, \<open>now_upd\<close> for
  \<open>lastUpdated\<close>. The state is changed before \<open>save\<close> runs, so a failed write leaves the
  changes in memory.
\<close>

definition endSession ::
  "(int \<Rightarrow> nat) \<Rightarrow> bool \<Rightarrow> string \<Rightarrow> int \<Rightarrow> int \<Rightarrow> write_outcome \<Rightarrow> MemorySystem \<Rightarrow> memory_file
     \<Rightarrow> (error + unit) \<times> MemorySystem \<times> memory_file" where
  "endSession getHours wasProd summary now_end now_upd w ms disk =
     (case currentSession ms of
        None \<Rightarrow> (Inr (), ms, disk)
      | Some cs \<Rightarrow>
          (let cs' = cs\<lparr>endTime := Some now_end, wasProductive := wasProd,
                        activitySummary := summary\<rparr>;
               pushed = sessions ms @ [cs'];
               p = updateUserProfile getHours now_upd cs' (userProfile ms);
               kept = (if length pushed > 100 then slice_last 100 pushed else pushed);
               ms' = ms\<lparr>sessions := kept, userProfile := p, currentSession := None\<rparr>;
               (r, disk') = save w ms' disk
           in (r, ms', disk')))"

definition recordIntervention ::
  "write_outcome \<Rightarrow> MemorySystem \<Rightarrow> memory_file \<Rightarrow> (error + unit) \<times> MemorySystem \<times> memory_file" where
  "recordIntervention w ms disk =
     (case currentSession ms of
        None \<Rightarrow> (Inr (), ms, disk)
      | Some cs \<Rightarrow>
          (let p = userProfile ms;
               ms' = ms\<lparr>currentSession := Some (cs\<lparr>interventionsCount := interventionsCount cs + 1\<rparr>),
                        userProfile := p\<lparr>totalInterventions := totalInterventions p + 1\<rparr>\<rparr>;
               (r, disk') = save w ms' disk
           in (r, ms', disk')))"

text \<open>
  \<open>updateInterventionEffectiveness\<close>. The literal \<open>0.2\<close> is the double nearest to 1/5, and
  each of the four operations rounds.
\<close>

definition updateInterventionEffectiveness :: "bool \<Rightarrow> MemorySystem \<Rightarrow> MemorySystem" where
  "updateInterventionEffectiveness wasEff ms =
     (let alpha = to_number (2/10);
          newValue = (if wasEff then Num 1 else Num 0);
          p = userProfile ms
      in ms\<lparr>userProfile := p\<lparr>interventionEffectivenessRate :=
              js_add (js_mul alpha newValue)
                     (js_mul (js_sub (Num 1) alpha) (interventionEffectivenessRate p))\<rparr>\<rparr>)"

text \<open>
  Feeding a sequence of effectiveness samples to \<open>updateInterventionEffectiveness\<close>, in
  order, and the rate read from the profile.
\<close>

definition apply_samples :: "MemorySystem \<Rightarrow> bool list \<Rightarrow> MemorySystem" where
  "apply_samples ms bs = foldl (\<lambda>m b. updateInterventionEffectiveness b m) ms bs"

definition rate :: "MemorySystem \<Rightarrow> number" where
  "rate ms = interventionEffectivenessRate (userProfile ms)"

text \<open>
  The closed form of the exponential moving average with weight 1/5 on a new sample, in
  exact arithmetic, as the specification words it: the start rate decays by 4/5 per sample, and sample \<open>i\<close>
  of \<open>n\<close> enters with weight \<open>1/5 * (4/5) ^ (n - 1 - i)\<close>.
\<close>

definition ema_closed_form :: "rat \<Rightarrow> bool list \<Rightarrow> rat" where
  "ema_closed_form r0 bs =
     (4/5) ^ length bs * r0 +
     (\<Sum>i<length bs. (1/5) * (4/5) ^ (length bs - 1 - i) * (if bs ! i then 1 else 0))"


text \<open>
  A caller's sequence of \<open>startSession\<close> and \<open>endSession\<close> calls, each with the values
  the environment supplies to it (clock readings and the outcome of the write). A call
  that throws has already changed the state, and the next call runs on that state.
\<close>

datatype call =
    StartSession int write_outcome
  | EndSession bool string int int write_outcome

fun perform :: "(int \<Rightarrow> nat) \<Rightarrow> call \<Rightarrow> MemorySystem \<times> memory_file \<Rightarrow> MemorySystem \<times> memory_file" where
  "perform getHours (StartSession now w) (ms, disk) = snd (startSession now w ms disk)"
| "perform getHours (EndSession wasProd summary now_end now_upd w) (ms, disk) =
     snd (endSession getHours wasProd summary now_end now_upd w ms disk)"

definition run_calls ::
  "(int \<Rightarrow> nat) \<Rightarrow> call list \<Rightarrow> MemorySystem \<times> memory_file \<Rightarrow> MemorySystem \<times> memory_file" where
  "run_calls getHours calls s = foldl (\<lambda>s c. perform getHours c s) s calls"



text \<open>
  \<open>Array.prototype.sort\<close> with a comparator. The sort is stable (ECMAScript 2019), so for
  a consistent comparator its result is the one of this insertion sort: an element goes in
  front of the first element it does not compare greater than, and the elements are
  inserted from the right.
\<close>

fun insort_cmp :: "('a \<Rightarrow> 'a \<Rightarrow> int) \<Rightarrow> 'a \<Rightarrow> 'a list \<Rightarrow> 'a list" where
  "insort_cmp cmp x [] = [x]"
| "insort_cmp cmp x (y # ys) =
     (if cmp x y \<le> 0 then x # y # ys else y # insort_cmp cmp x ys)"

definition sort_cmp :: "('a \<Rightarrow> 'a \<Rightarrow> int) \<Rightarrow> 'a list \<Rightarrow> 'a list" where
  "sort_cmp cmp xs = foldr (insort_cmp cmp) xs []"






text \<open>The session-accounting invariant of the profile.\<close>

definition accounted :: "MemorySystem \<Rightarrow> bool" where
  "accounted ms \<longleftrightarrow> productiveSessions (userProfile ms) \<le> totalSessions (userProfile ms)"

text \<open>Sample inputs: the hour of a timestamp in UTC, and a store with filled histograms.\<close>

definition utc_hours :: "int \<Rightarrow> nat" where
  "utc_hours t = nat ((t div 3600000) mod 24)"



section \<open>Decision engine (class ProductivityAgent)\<close>

subsection \<open>JSON values\<close>

text \<open>
  The values \<open>JSON.parse\<close> returns. \<open>parseAgentDecision\<close> casts the parsed value to
  \<open>AgentDecision\<close> without converting it, so a decision is such a value, and a property
  that is absent reads as \<open>undefined\<close>, which is \<open>None\<close> here. An object is the list of its
  members, read with \<open>map_of\<close>. An array is an object too: besides its elements it has
  named properties, none when it comes from \<open>JSON.parse\<close>, which an assignment can add.
\<close>

datatype json =
    JNull
  | JBool bool
  | JNum rat
  | JStr string
  | JArr "json list" "(string \<times> json) list"
  | JObj "(string \<times> json) list"

text \<open>
  Reading a property \<open>v.k\<close> of a value other than \<open>null\<close>, for the property names the
  decision engine reads (none of them is a built-in property of arrays or primitives),
  the \<open>typeof\<close> operator, and truthiness as \<open>!\<close> and \<open>if\<close> see it.
\<close>

definition property :: "json \<Rightarrow> string \<Rightarrow> json option" where
  "property v k =
     (case v of
        JObj members \<Rightarrow> map_of members k
      | JArr elements named \<Rightarrow> map_of named k
      | _ \<Rightarrow> None)"

definition typeof :: "json option \<Rightarrow> string" where
  "typeof v =
     (case v of
        None \<Rightarrow> ''undefined''
      | Some JNull \<Rightarrow> ''object''
      | Some (JBool _) \<Rightarrow> ''boolean''
      | Some (JNum _) \<Rightarrow> ''number''
      | Some (JStr _) \<Rightarrow> ''string''
      | Some (JArr _ _) \<Rightarrow> ''object''
      | Some (JObj _) \<Rightarrow> ''object'')"

definition truthy :: "json option \<Rightarrow> bool" where
  "truthy v =
     (case v of
        None \<Rightarrow> False
      | Some JNull \<Rightarrow> False
      | Some (JBool b) \<Rightarrow> b
      | Some (JNum x) \<Rightarrow> x \<noteq> 0
      | Some (JStr s) \<Rightarrow> s \<noteq> []
      | Some (JArr _ _) \<Rightarrow> True
      | Some (JObj _) \<Rightarrow> True)"

subsection \<open>A reference reading of JSON text\<close>

text \<open>
  The decision engine is modelled over an arbitrary function \<open>parse\<close> for \<open>JSON.parse\<close>
  (\<open>None\<close> when it throws), and the properties below hold for every such function.
  \<open>JSON_parse\<close> is a recursive-descent reading of the JSON grammar, used to run the model
  on sample replies: objects (a repeated key keeps its last value), arrays, strings with
  their escapes (a \<open>\u\<close> escape only up to code 255, the range of \<open>char\<close>), numbers as exact
  rationals, and the three literals. The first argument of \<open>parse_value\<close> bounds the
  nesting; \<open>JSON_parse\<close> starts it above the length of the text.
\<close>

definition is_ws :: "char \<Rightarrow> bool" where
  "is_ws c \<longleftrightarrow> c = CHR '' '' \<or> c = CHR 0x09 \<or> c = CHR 0x0A \<or> c = CHR 0x0D"

definition skip_ws :: "string \<Rightarrow> string" where
  "skip_ws cs = dropWhile is_ws cs"

definition is_digit :: "char \<Rightarrow> bool" where
  "is_digit c \<longleftrightarrow> 48 \<le> (of_char c :: nat) \<and> (of_char c :: nat) \<le> 57"

definition digits_value :: "string \<Rightarrow> int" where
  "digits_value ds = foldl (\<lambda>n c. 10 * n + (of_char c - 48)) 0 ds"

definition hex_value :: "char \<Rightarrow> nat option" where
  "hex_value c =
     (if is_digit c then Some (of_char c - 48)
      else if 97 \<le> (of_char c :: nat) \<and> (of_char c :: nat) \<le> 102 then Some (of_char c - 87)
      else if 65 \<le> (of_char c :: nat) \<and> (of_char c :: nat) \<le> 70 then Some (of_char c - 55)
      else None)"

fun parse_string :: "string \<Rightarrow> (string \<times> string) option" where
  "parse_string [] = None"
| "parse_string (c # cs) =
     (if c = CHR 0x22 then Some ([], cs)
      else if c = CHR 0x5C then
        (case cs of
           [] \<Rightarrow> None
         | e # r \<Rightarrow>
             (if e = CHR ''u'' then
                (case r of
                   a # b # c' # d # r' \<Rightarrow>
                     (case (hex_value a, hex_value b, hex_value c', hex_value d) of
                        (Some 0, Some 0, Some h, Some l) \<Rightarrow>
                          map_option (\<lambda>(s, t). (char_of (16 * h + l) # s, t)) (parse_string r')
                      | _ \<Rightarrow> None)
                 | _ \<Rightarrow> None)
              else
                (case (if e = CHR 0x22 then Some (CHR 0x22)
                       else if e = CHR 0x5C then Some (CHR 0x5C)
                       else if e = CHR ''/'' then Some (CHR ''/'')
                       else if e = CHR ''b'' then Some (CHR 0x08)
                       else if e = CHR ''f'' then Some (CHR 0x0C)
                       else if e = CHR ''n'' then Some (CHR 0x0A)
                       else if e = CHR ''r'' then Some (CHR 0x0D)
                       else if e = CHR ''t'' then Some (CHR 0x09)
                       else None) of
                   None \<Rightarrow> None
                 | Some x \<Rightarrow> map_option (\<lambda>(s, t). (x # s, t)) (parse_string r))))
      else if (of_char c :: nat) < 32 then None
      else map_option (\<lambda>(s, t). (c # s, t)) (parse_string cs))"


definition parse_number :: "string \<Rightarrow> (rat \<times> string) option" where
  "parse_number cs =
     (let (neg, cs1) = (case cs of [] \<Rightarrow> (False, cs)
                        | c # r \<Rightarrow> if c = CHR ''-'' then (True, r) else (False, cs));
          (ip, cs2) = (case cs1 of [] \<Rightarrow> ([], cs1)
                       | c # r \<Rightarrow> if c = CHR ''0'' then ([c], r)
                                 else (takeWhile is_digit cs1, dropWhile is_digit cs1))
      in if ip = [] then None
         else
           (let (fp, cs3) = (case cs2 of [] \<Rightarrow> (Some [], cs2)
                             | c # r \<Rightarrow>
                                 if c = CHR ''.'' then
                                   (if takeWhile is_digit r = [] then (None, r)
                                    else (Some (takeWhile is_digit r), dropWhile is_digit r))
                                 else (Some [], cs2))
            in case fp of
                 None \<Rightarrow> None
               | Some fd \<Rightarrow>
                   (let (ex, cs4) =
                          (case cs3 of [] \<Rightarrow> (Some 0, cs3)
                           | c # r \<Rightarrow>
                               if c = CHR ''e'' \<or> c = CHR ''E'' then
                                 (let (eneg, r1) =
                                        (case r of [] \<Rightarrow> (False, r)
                                         | s # r' \<Rightarrow> if s = CHR ''-'' then (True, r')
                                                    else if s = CHR ''+'' then (False, r')
                                                    else (False, r))
                                  in if takeWhile is_digit r1 = [] then (None, r1)
                                     else (Some ((if eneg then - 1 else 1)
                                                   * digits_value (takeWhile is_digit r1)),
                                           dropWhile is_digit r1))
                               else (Some (0::int), cs3))
                    in case ex of
                         None \<Rightarrow> None
                       | Some e \<Rightarrow>
                           (let m = of_int (digits_value ip)
                                    + of_int (digits_value fd) / 10 ^ length fd;
                                v = (if e < 0 then m / 10 ^ nat (- e) else m * 10 ^ nat e)
                            in Some (if neg then - v else v, cs4)))))"

definition starts_with :: "string \<Rightarrow> string \<Rightarrow> bool" where
  "starts_with p cs \<longleftrightarrow> take (length p) cs = p"

fun parse_value :: "nat \<Rightarrow> string \<Rightarrow> (json \<times> string) option"
  and parse_elements :: "nat \<Rightarrow> string \<Rightarrow> json list \<Rightarrow> (json \<times> string) option"
  and parse_members :: "nat \<Rightarrow> string \<Rightarrow> (string \<times> json) list \<Rightarrow> (json \<times> string) option"
where
  "parse_value 0 cs = None"
| "parse_value (Suc n) cs =
     (case skip_ws cs of
        [] \<Rightarrow> None
      | c # r \<Rightarrow>
          if c = CHR ''{'' then
            (case skip_ws r of
               [] \<Rightarrow> None
             | c' # r' \<Rightarrow> if c' = CHR ''}'' then Some (JObj [], r') else parse_members n r [])
          else if c = CHR ''['' then
            (case skip_ws r of
               [] \<Rightarrow> None
             | c' # r' \<Rightarrow> if c' = CHR '']'' then Some (JArr [] [], r') else parse_elements n r [])
          else if c = CHR 0x22 then
            map_option (\<lambda>(s, t). (JStr s, t)) (parse_string r)
          else if starts_with ''true'' (c # r) then Some (JBool True, drop 4 (c # r))
          else if starts_with ''false'' (c # r) then Some (JBool False, drop 5 (c # r))
          else if starts_with ''null'' (c # r) then Some (JNull, drop 4 (c # r))
          else map_option (\<lambda>(x, t). (JNum x, t)) (parse_number (c # r)))"
| "parse_elements 0 cs acc = None"
| "parse_elements (Suc n) cs acc =
     (case parse_value n cs of
        None \<Rightarrow> None
      | Some (v, r) \<Rightarrow>
          (case skip_ws r of
             [] \<Rightarrow> None
           | c # r' \<Rightarrow>
               if c = CHR '','' then parse_elements n r' (acc @ [v])
               else if c = CHR '']'' then Some (JArr (acc @ [v]) [], r')
               else None))"
| "parse_members 0 cs acc = None"
| "parse_members (Suc n) cs acc =
     (case skip_ws cs of
        [] \<Rightarrow> None
      | q # r \<Rightarrow>
          if q \<noteq> CHR 0x22 then None
          else
            (case parse_string r of
               None \<Rightarrow> None
             | Some (k, r1) \<Rightarrow>
                 (case skip_ws r1 of
                    [] \<Rightarrow> None
                  | c # r2 \<Rightarrow>
                      if c \<noteq> CHR '':'' then None
                      else
                        (case parse_value n r2 of
                           None \<Rightarrow> None
                         | Some (v, r3) \<Rightarrow>
                             (case skip_ws r3 of
                                [] \<Rightarrow> None
                              | d # r4 \<Rightarrow>
                                  if d = CHR '','' then parse_members n r4 (AList.update k v acc)
                                  else if d = CHR ''}'' then Some (JObj (AList.update k v acc), r4)
                                  else None)))))"

definition JSON_parse :: "string \<Rightarrow> json option" where
  "JSON_parse s =
     (case parse_value (Suc (length s)) s of
        None \<Rightarrow> None
      | Some (v, r) \<Rightarrow> if skip_ws r = [] then Some v else None)"

subsection \<open>Parsing the reply and deciding\<close>

text \<open>
  \<open>response.match(/\{[\s\S]*\}/)\<close>: the match starts at the first opening brace and,
  the star being greedy, ends at the last closing brace after it; there is no match when
  no closing brace follows the first opening one.
\<close>

definition json_match :: "string \<Rightarrow> string option" where
  "json_match response =
     (case dropWhile (\<lambda>c. c \<noteq> CHR ''{'') response of
        [] \<Rightarrow> None
      | open_brace # rest \<Rightarrow>
          (case rev (dropWhile (\<lambda>c. c \<noteq> CHR ''}'') (rev rest)) of
             [] \<Rightarrow> None
           | body \<Rightarrow> Some (open_brace # body)))"

text \<open>\<open>getDefaultDecision\<close>; \<open>now\<close> is \<open>Date.now()\<close>.\<close>

definition getDefaultDecision :: "int \<Rightarrow> json" where
  "getDefaultDecision now =
     JObj [(''shouldIntervene'', JBool False),
           (''intervention'',
              JObj [(''type'', JStr ''none''), (''message'', JStr []),
                    (''timestamp'', JNum (of_int now))]),
           (''reasoning'', JStr ''Failed to make decision, defaulting to no intervention''),
           (''confidence'', JNum 0)]"

text \<open>
  The body of the \<open>try\<close> block of \<open>parseAgentDecision\<close>, each throw an \<open>Inl\<close>: no match,
  \<open>JSON.parse\<close> throws, reading a property of \<open>null\<close> throws, or the structure check
  fails. The \<open>catch\<close> clause returns the default decision.
\<close>

definition parseAgentDecision_try :: "(string \<Rightarrow> json option) \<Rightarrow> string \<Rightarrow> error + json" where
  "parseAgentDecision_try parse response =
     (case json_match response of
        None \<Rightarrow> Inl NoJsonFound
      | Some jsonMatch \<Rightarrow>
          (case parse jsonMatch of
             None \<Rightarrow> Inl SyntaxError
           | Some decision \<Rightarrow>
               if decision = JNull then Inl TypeError
               else if typeof (property decision ''shouldIntervene'') \<noteq> ''boolean''
                       \<or> \<not> truthy (property decision ''intervention'')
                       \<or> \<not> truthy (property decision ''reasoning'')
               then Inl InvalidStructure
               else Inr decision))"

definition parseAgentDecision :: "(string \<Rightarrow> json option) \<Rightarrow> int \<Rightarrow> string \<Rightarrow> json" where
  "parseAgentDecision parse now response =
     (case parseAgentDecision_try parse response of
        Inl e \<Rightarrow> getDefaultDecision now
      | Inr decision \<Rightarrow> decision)"

text \<open>\<open>addToHistory\<close>: \<open>push\<close>, then one \<open>shift\<close> when the list is longer than the cap.\<close>

definition maxHistorySize :: nat where
  "maxHistorySize = 10"

definition addToHistory :: "'a list \<Rightarrow> 'a \<Rightarrow> 'a list" where
  "addToHistory history intervention =
     (let pushed = history @ [intervention]
      in if length pushed > maxHistorySize then tl pushed else pushed)"

text \<open>
  What \<open>agent.runTask\<close> and the iteration over its events do is an input from the
  environment: the call or the stream throws, or the stream completes with a list of
  events, of which the text events carry a piece of the reply.
\<close>

datatype event = Text string | Other

datatype backend = Throws | Completes "event list"

definition responseText :: "event list \<Rightarrow> string" where
  "responseText events = foldl (\<lambda>text e. case e of Text content \<Rightarrow> text @ content | Other \<Rightarrow> text) [] events"

text \<open>
  \<open>decideIntervention\<close>. The history holds what \<open>decision.intervention\<close> was. After the
  structure check a decision with a true \<open>shouldIntervene\<close> has an \<open>intervention\<close>, so the
  \<open>None\<close> branch below is never taken (lemma \<open>intervening_has_intervention\<close>).
\<close>

definition decideIntervention_try ::
  "(string \<Rightarrow> json option) \<Rightarrow> int \<Rightarrow> backend \<Rightarrow> json list \<Rightarrow> error + json \<times> json list" where
  "decideIntervention_try parse now run history =
     (case run of
        Throws \<Rightarrow> Inl BackendFailed
      | Completes events \<Rightarrow>
          (let decision = parseAgentDecision parse now (responseText events)
           in if truthy (property decision ''shouldIntervene'')
              then (case property decision ''intervention'' of
                      None \<Rightarrow> Inr (decision, history)
                    | Some intervention \<Rightarrow> Inr (decision, addToHistory history intervention))
              else Inr (decision, history)))"

definition decideIntervention ::
  "(string \<Rightarrow> json option) \<Rightarrow> int \<Rightarrow> backend \<Rightarrow> json list \<Rightarrow> error + json \<times> json list" where
  "decideIntervention parse now run history =
     (case decideIntervention_try parse now run history of
        Inl e \<Rightarrow> Inr (getDefaultDecision now, history)
      | Inr r \<Rightarrow> Inr r)"

text \<open>
  The assignment \<open>target.k = v\<close> in a module, which is strict code: on an object or an
  array it sets the property (replacing its value, or adding it last), on \<open>null\<close> and on a
  primitive value it throws a \<open>TypeError\<close>.
\<close>

definition assign_property :: "json \<Rightarrow> string \<Rightarrow> json \<Rightarrow> error + json" where
  "assign_property target k v =
     (case target of
        JObj members \<Rightarrow> Inr (JObj (AList.update k v members))
      | JArr elements named \<Rightarrow> Inr (JArr elements (AList.update k v named))
      | _ \<Rightarrow> Inl TypeError)"

text \<open>
  \<open>recordInterventionEffectiveness\<close>, on the history as \<open>decideIntervention\<close> builds it:
  the entries are whatever \<open>decision.intervention\<close> was. The record assigned to is the last
  entry itself, so the history sees the new field; a throw leaves the history as it was.
\<close>

definition recordInterventionEffectiveness :: "bool \<Rightarrow> json list \<Rightarrow> error + json list" where
  "recordInterventionEffectiveness wasEff history =
     (if length history > 0
      then (let lastIntervention = history ! (length history - 1)
            in case assign_property lastIntervention ''wasEffective'' (JBool wasEff) of
                 Inl e \<Rightarrow> Inl e
               | Inr scored \<Rightarrow> Inr (history[length history - 1 := scored]))
      else Inr history)"

text \<open>
  Reading the kind of a decision's intervention, \<open>decision.intervention.type\<close>, and the
  fixed set of kinds.
\<close>

definition decision_kind :: "json \<Rightarrow> json option" where
  "decision_kind decision =
     (case property decision ''intervention'' of
        None \<Rightarrow> None
      | Some intervention \<Rightarrow> property intervention ''type'')"

definition kind_enum :: "json option set" where
  "kind_enum = {Some (JStr ''alarm''), Some (JStr ''notification''),
                Some (JStr ''gentle_reminder''), Some (JStr ''none'')}"

text \<open>
  Sample replies of the backend: prose around a payload that declines to intervene yet
  names an alarm, a payload with a kind outside the fixed set, a reply with no payload, a
  payload followed by a stray closing brace, a payload with an empty \<open>reasoning\<close>, and a
  payload whose \<open>intervention\<close> is a text instead of an object.
\<close>

definition reply_declining_alarm :: string where
  \<open>reply_declining_alarm = ''Here is my decision: {"shouldIntervene": false, "intervention": {"type": "alarm", "message": "Back to work", "timestamp": 1700000000000}, "reasoning": "idle", "confidence": 85} Hope it helps.''\<close>

definition reply_unknown_kind :: string where
  \<open>reply_unknown_kind = ''{"shouldIntervene": true, "intervention": {"type": "siren", "message": "Wake up", "timestamp": 1700000000000}, "reasoning": "idle for long", "confidence": 90}''\<close>






text \<open>History records: one already scored as effective, and one not yet scored.\<close>

definition scored_alarm :: json where
  "scored_alarm = JObj [(''type'', JStr ''alarm''), (''message'', JStr ''Back to work''),
                        (''timestamp'', JNum 1700000000000), (''wasEffective'', JBool True)]"

definition unscored_reminder :: json where
  "unscored_reminder = JObj [(''type'', JStr ''gentle_reminder''), (''message'', JStr ''Still there?''),
                             (''timestamp'', JNum 1700000060000)]"

section \<open>Properties\<close>

subsection \<open>Rounding to a double\<close>

lemma round_half_even_err: "\<bar>of_int (round_half_even y) - y\<bar> \<le> 1/2"
proof -
  have "of_int \<lfloor>y\<rfloor> \<le> y" "y < of_int \<lfloor>y\<rfloor> + 1"
    by linarith+
  then show ?thesis
    by (auto simp: round_half_even_def Let_def)
qed

lemma pow2_pos: "(0::rat) < 2 powi n"
  by (simp add: power_int_def)

lemma pow2_nat: "0 \<le> n \<Longrightarrow> (2::rat) powi n = of_int (2 ^ nat n)"
  by (simp add: power_int_def)

lemma binary_exponent_bounds:
  assumes "x \<noteq> 0"
  shows "2 powi (binary_exponent x) \<le> \<bar>x\<bar>" and "\<bar>x\<bar> < 2 powi (binary_exponent x + 1)"
proof -
  obtain p q where pq: "quotient_of \<bar>x\<bar> = (p, q)"
    by (cases "quotient_of \<bar>x\<bar>")
  then have q: "0 < q" and x: "\<bar>x\<bar> = of_int p / of_int q"
    by (auto dest: quotient_of_denom_pos quotient_of_div)
  have p: "0 < p"
  proof (rule ccontr)
    assume "\<not> 0 < p"
    then have "of_int p / of_int q \<le> (0::rat)"
      using q by (simp add: divide_nonpos_pos)
    with x assms show False by simp
  qed
  define bp where "bp = bitlen p"
  define bq where "bq = bitlen q"
  have bp: "1 \<le> bp" "2 ^ nat (bp - 1) \<le> p" "p < 2 ^ nat bp"
    using bitlen_bounds [OF p] bitlen_eq_zero_iff [of p] bitlen_nonneg [of p] p
    by (auto simp: bp_def)
  have bq: "1 \<le> bq" "2 ^ nat (bq - 1) \<le> q" "q < 2 ^ nat bq"
    using bitlen_bounds [OF q] bitlen_eq_zero_iff [of q] bitlen_nonneg [of q] q
    by (auto simp: bq_def)
  have pl: "(2::rat) powi (bp - 1) \<le> of_int p" and pu: "of_int p < (2::rat) powi bp"
    using bp by (simp_all add: pow2_nat flip: of_int_power)
  have ql: "(2::rat) powi (bq - 1) \<le> of_int q" and qu: "of_int q < (2::rat) powi bq"
    using bq by (simp_all add: pow2_nat flip: of_int_power)
  have lower: "2 powi (bp - bq - 1) < \<bar>x\<bar>"
  proof -
    have "(2::rat) powi (bp - bq - 1) * of_int q < 2 powi (bp - bq - 1) * 2 powi bq"
      using qu pow2_pos by simp
    also have "\<dots> = 2 powi (bp - 1)"
      by (simp flip: power_int_add)
    also have "\<dots> \<le> of_int p" by (rule pl)
    finally show ?thesis
      using q by (simp add: x pos_less_divide_eq)
  qed
  have upper: "\<bar>x\<bar> < 2 powi (bp - bq + 1)"
  proof -
    have "of_int p < (2::rat) powi bp" by (rule pu)
    also have "\<dots> = 2 powi (bp - bq + 1) * 2 powi (bq - 1)"
      by (simp flip: power_int_add)
    also have "\<dots> \<le> 2 powi (bp - bq + 1) * of_int q"
      using ql pow2_pos by simp
    finally show ?thesis
      using q by (simp add: x pos_divide_less_eq)
  qed
  have e: "binary_exponent x = (if 2 powi (bp - bq) \<le> \<bar>x\<bar> then bp - bq else bp - bq - 1)"
    by (simp add: binary_exponent_def pq bp_def bq_def Let_def)
  show "2 powi (binary_exponent x) \<le> \<bar>x\<bar>"
    using lower by (simp add: e)
  show "\<bar>x\<bar> < 2 powi (binary_exponent x + 1)"
    using upper by (auto simp: e)
qed

lemma fl_err:
  assumes "\<bar>x\<bar> < 2"
  shows "\<bar>fl x - x\<bar> \<le> 1 / 2 ^ 53"
proof (cases "x = 0")
  case True
  then show ?thesis by (simp add: fl_def)
next
  case False
  define q where "q = max (binary_exponent x - 52) (- 1074)"
  have "2 powi (binary_exponent x) \<le> \<bar>x\<bar>"
    using False by (rule binary_exponent_bounds)
  with assms have "(2::rat) powi (binary_exponent x) < 2 powi 1"
    by simp
  then have "binary_exponent x < 1"
  proof (rule contrapos_pp)
    assume "\<not> binary_exponent x < 1"
    then have "1 \<le> binary_exponent x" by simp
    then have "(2::rat) powi 1 \<le> 2 powi binary_exponent x"
      by (rule power_int_increasing) simp
    then show "\<not> (2::rat) powi binary_exponent x < 2 powi 1" by simp
  qed
  then have q: "q \<le> - 52"
    by (simp add: q_def)
  have pos: "(0::rat) < 2 powi q" by (rule pow2_pos)
  have "fl x - x = (of_int (round_half_even (x / 2 powi q)) - x / 2 powi q) * 2 powi q"
    using False pos by (simp add: fl_def q_def Let_def algebra_simps)
  then have "\<bar>fl x - x\<bar> = \<bar>of_int (round_half_even (x / 2 powi q)) - x / 2 powi q\<bar> * 2 powi q"
    using pos by (simp add: abs_mult)
  also have "\<dots> \<le> 1/2 * 2 powi q"
    using round_half_even_err [of "x / 2 powi q"] pos by (intro mult_right_mono) simp_all
  also have "\<dots> \<le> 1/2 * 2 powi (- 52)"
    using q by (intro mult_left_mono power_int_increasing) simp_all
  also have "\<dots> = 1 / 2 ^ 53"
    by (simp add: power_int_def power_divide)
  finally show ?thesis .
qed

lemma to_number_small:
  assumes "\<bar>x\<bar> < 2"
  shows "to_number x = Num (fl x)"
proof -
  have "\<bar>fl x\<bar> < 3"
    using fl_err [OF assms] assms by (simp add: abs_if split: if_splits)
  moreover have "(3::rat) \<le> 2 powi 1024"
    by (simp add: power_int_def)
  ultimately show ?thesis
    by (auto simp: to_number_def Let_def abs_if split: if_splits)
qed

lemma binary_exponent_eq:
  assumes lo: "2 powi e \<le> \<bar>x\<bar>" and hi: "\<bar>x\<bar> < 2 powi (e + 1)"
  shows "binary_exponent x = e"
proof -
  have "x \<noteq> 0"
  proof
    assume "x = 0"
    with lo have "(2::rat) powi e \<le> 0" by simp
    moreover have "\<not> (2::rat) powi e \<le> 0"
      using pow2_pos [of e] by (simp only: not_le)
    ultimately show False by blast
  qed
  then have b: "2 powi (binary_exponent x) \<le> \<bar>x\<bar>" "\<bar>x\<bar> < 2 powi (binary_exponent x + 1)"
    by (rule binary_exponent_bounds)+
  have less: "m < n" if "(2::rat) powi m < 2 powi n" for m n :: int
  proof (rule ccontr)
    assume "\<not> m < n"
    then have "(2::rat) powi n \<le> 2 powi m"
      by (intro power_int_increasing) simp_all
    with that show False by simp
  qed
  have "binary_exponent x < e + 1"
    using b(1) hi by (intro less) simp
  moreover have "e < binary_exponent x + 1"
    using lo b(2) by (intro less) simp
  ultimately show ?thesis by simp
qed

lemma round_half_even_eval:
  assumes "of_int f \<le> y" "y < of_int f + 1"
  shows "round_half_even y =
     (if y - of_int f < 1/2 then f else if y - of_int f > 1/2 then f + 1
      else if even f then f else f + 1)"
proof -
  have "\<lfloor>y\<rfloor> = f"
    using assms by (intro floor_unique) simp_all
  then show ?thesis
    by (simp add: round_half_even_def Let_def)
qed

lemma fl_zero: "fl 0 = 0"
  by (simp add: fl_def)

lemma fl_eqI:
  assumes "binary_exponent x = e" "x \<noteq> 0" "q = max (e - 52) (- 1074)"
    and "x / 2 powi q = y" "round_half_even y = m" "of_int m * 2 powi q = v"
  shows "fl x = v"
  using assms by (simp add: fl_def Let_def)

lemma double_values:
  "fl (1 / 5) = 3602879701896397 / 18014398509481984"
  "fl (3602879701896397 / 18014398509481984) = 3602879701896397 / 18014398509481984"
  "fl (14411518807585587 / 18014398509481984) = 3602879701896397 / 4503599627370496"
  "fl (3602879701896397 / 9007199254740992) = 3602879701896397 / 9007199254740992"
  "fl (10808639105689191 / 18014398509481984) = 1351079888211149 / 2251799813685248"
  "fl (4867778304876401892539258330153 / 10141204801825835211973625643008) = 4323455642275677 / 9007199254740992"
  "fl (4323455642275677 / 9007199254740992) = 4323455642275677 / 9007199254740992"
  "fl (6000000000000001 / 10000000000000000) = 1351079888211149 / 2251799813685248"
  "fl (4800000000000001 / 10000000000000000) = 4323455642275677 / 9007199254740992"
  "fl (3 / 5) = 5404319552844595 / 9007199254740992"
  "fl (12 / 25) = 1080863910568919 / 2251799813685248"
  "fl (1 / 2) = 1 / 2"
proof -
  show "fl (1 / 5) = 3602879701896397 / 18014398509481984"
  proof (rule fl_eqI [where e = "- 3" and q = "- 55" and y = "36028797018963968 / 5" and m = "7205759403792794"])
    show "binary_exponent (1 / 5) = - 3"
      by (rule binary_exponent_eq) (simp_all add: power_int_def power_divide)
    show "round_half_even (36028797018963968 / 5) = 7205759403792794"
      by (subst round_half_even_eval [where f = "7205759403792793"]) simp_all
  qed (simp_all add: power_int_def power_divide)
  show "fl (3602879701896397 / 18014398509481984) = 3602879701896397 / 18014398509481984"
  proof (rule fl_eqI [where e = "- 3" and q = "- 55" and y = "7205759403792794" and m = "7205759403792794"])
    show "binary_exponent (3602879701896397 / 18014398509481984) = - 3"
      by (rule binary_exponent_eq) (simp_all add: power_int_def power_divide)
    show "round_half_even (7205759403792794) = 7205759403792794"
      by (subst round_half_even_eval [where f = "7205759403792794"]) simp_all
  qed (simp_all add: power_int_def power_divide)
  show "fl (14411518807585587 / 18014398509481984) = 3602879701896397 / 4503599627370496"
  proof (rule fl_eqI [where e = "- 1" and q = "- 53" and y = "14411518807585587 / 2" and m = "7205759403792794"])
    show "binary_exponent (14411518807585587 / 18014398509481984) = - 1"
      by (rule binary_exponent_eq) (simp_all add: power_int_def power_divide)
    show "round_half_even (14411518807585587 / 2) = 7205759403792794"
      by (subst round_half_even_eval [where f = "7205759403792793"]) simp_all
  qed (simp_all add: power_int_def power_divide)
  show "fl (3602879701896397 / 9007199254740992) = 3602879701896397 / 9007199254740992"
  proof (rule fl_eqI [where e = "- 2" and q = "- 54" and y = "7205759403792794" and m = "7205759403792794"])
    show "binary_exponent (3602879701896397 / 9007199254740992) = - 2"
      by (rule binary_exponent_eq) (simp_all add: power_int_def power_divide)
    show "round_half_even (7205759403792794) = 7205759403792794"
      by (subst round_half_even_eval [where f = "7205759403792794"]) simp_all
  qed (simp_all add: power_int_def power_divide)
  show "fl (10808639105689191 / 18014398509481984) = 1351079888211149 / 2251799813685248"
  proof (rule fl_eqI [where e = "- 1" and q = "- 53" and y = "10808639105689191 / 2" and m = "5404319552844596"])
    show "binary_exponent (10808639105689191 / 18014398509481984) = - 1"
      by (rule binary_exponent_eq) (simp_all add: power_int_def power_divide)
    show "round_half_even (10808639105689191 / 2) = 5404319552844596"
      by (subst round_half_even_eval [where f = "5404319552844595"]) simp_all
  qed (simp_all add: power_int_def power_divide)
  show "fl (4867778304876401892539258330153 / 10141204801825835211973625643008) = 4323455642275677 / 9007199254740992"
  proof (rule fl_eqI [where e = "- 2" and q = "- 54" and y = "4867778304876401892539258330153 / 562949953421312" and m = "8646911284551354"])
    show "binary_exponent (4867778304876401892539258330153 / 10141204801825835211973625643008) = - 2"
      by (rule binary_exponent_eq) (simp_all add: power_int_def power_divide)
    show "round_half_even (4867778304876401892539258330153 / 562949953421312) = 8646911284551354"
      by (subst round_half_even_eval [where f = "8646911284551354"]) simp_all
  qed (simp_all add: power_int_def power_divide)
  show "fl (4323455642275677 / 9007199254740992) = 4323455642275677 / 9007199254740992"
  proof (rule fl_eqI [where e = "- 2" and q = "- 54" and y = "8646911284551354" and m = "8646911284551354"])
    show "binary_exponent (4323455642275677 / 9007199254740992) = - 2"
      by (rule binary_exponent_eq) (simp_all add: power_int_def power_divide)
    show "round_half_even (8646911284551354) = 8646911284551354"
      by (subst round_half_even_eval [where f = "8646911284551354"]) simp_all
  qed (simp_all add: power_int_def power_divide)
  show "fl (6000000000000001 / 10000000000000000) = 1351079888211149 / 2251799813685248"
  proof (rule fl_eqI [where e = "- 1" and q = "- 53" and y = "824633720832000137438953472 / 152587890625" and m = "5404319552844596"])
    show "binary_exponent (6000000000000001 / 10000000000000000) = - 1"
      by (rule binary_exponent_eq) (simp_all add: power_int_def power_divide)
    show "round_half_even (824633720832000137438953472 / 152587890625) = 5404319552844596"
      by (subst round_half_even_eval [where f = "5404319552844596"]) simp_all
  qed (simp_all add: power_int_def power_divide)
  show "fl (4800000000000001 / 10000000000000000) = 4323455642275677 / 9007199254740992"
  proof (rule fl_eqI [where e = "- 2" and q = "- 54" and y = "1319413953331200274877906944 / 152587890625" and m = "8646911284551354"])
    show "binary_exponent (4800000000000001 / 10000000000000000) = - 2"
      by (rule binary_exponent_eq) (simp_all add: power_int_def power_divide)
    show "round_half_even (1319413953331200274877906944 / 152587890625) = 8646911284551354"
      by (subst round_half_even_eval [where f = "8646911284551354"]) simp_all
  qed (simp_all add: power_int_def power_divide)
  show "fl (3 / 5) = 5404319552844595 / 9007199254740992"
  proof (rule fl_eqI [where e = "- 1" and q = "- 53" and y = "27021597764222976 / 5" and m = "5404319552844595"])
    show "binary_exponent (3 / 5) = - 1"
      by (rule binary_exponent_eq) (simp_all add: power_int_def power_divide)
    show "round_half_even (27021597764222976 / 5) = 5404319552844595"
      by (subst round_half_even_eval [where f = "5404319552844595"]) simp_all
  qed (simp_all add: power_int_def power_divide)
  show "fl (12 / 25) = 1080863910568919 / 2251799813685248"
  proof (rule fl_eqI [where e = "- 2" and q = "- 54" and y = "216172782113783808 / 25" and m = "8646911284551352"])
    show "binary_exponent (12 / 25) = - 2"
      by (rule binary_exponent_eq) (simp_all add: power_int_def power_divide)
    show "round_half_even (216172782113783808 / 25) = 8646911284551352"
      by (subst round_half_even_eval [where f = "8646911284551352"]) simp_all
  qed (simp_all add: power_int_def power_divide)
  show "fl (1 / 2) = 1 / 2"
  proof (rule fl_eqI [where e = "- 1" and q = "- 53" and y = "4503599627370496" and m = "4503599627370496"])
    show "binary_exponent (1 / 2) = - 1"
      by (rule binary_exponent_eq) (simp_all add: power_int_def power_divide)
    show "round_half_even (4503599627370496) = 4503599627370496"
      by (subst round_half_even_eval [where f = "4503599627370496"]) simp_all
  qed (simp_all add: power_int_def power_divide)
qed

subsection \<open>Effectiveness rate\<close>

lemma rate_update:
  "rate (updateInterventionEffectiveness b ms)
     = js_add (js_mul (to_number (2/10)) (if b then Num 1 else Num 0))
              (js_mul (js_sub (Num 1) (to_number (2/10))) (rate ms))"
  by (simp add: updateInterventionEffectiveness_def rate_def Let_def)

lemma apply_samples_snoc:
  "apply_samples ms (bs @ [b]) = updateInterventionEffectiveness b (apply_samples ms bs)"
  by (simp add: apply_samples_def)

lemma ema_closed_form_snoc:
  "ema_closed_form r0 (bs @ [b]) = 0.2 * (if b then 1 else 0) + 0.8 * ema_closed_form r0 bs"
proof -
  let ?n = "length bs"
  have s: "(\<Sum>i<?n. (1/5) * (4/5) ^ (?n - i) * (if (bs @ [b]) ! i then 1 else 0))
         = (4/5) * (\<Sum>i<?n. (1/5) * (4/5) ^ (?n - 1 - i) * (if bs ! i then 1 else (0::rat)))"
    unfolding sum_distrib_left
  proof (rule sum.cong)
    fix i assume "i \<in> {..<?n}"
    then have i: "i < ?n" by simp
    then have "?n - i = Suc (?n - 1 - i)" by simp
    then show "(1/5) * (4/5) ^ (?n - i) * (if (bs @ [b]) ! i then 1 else 0)
       = (4/5) * ((1/5) * (4/5) ^ (?n - 1 - i) * (if bs ! i then 1 else (0::rat)))"
      using i by (simp add: nth_append)
  qed simp
  define S where "S = (\<Sum>i<?n. (1/5) * (4/5) ^ (?n - 1 - i) * (if bs ! i then 1 else (0::rat)))"
  have e: "ema_closed_form r0 bs = (4/5) ^ ?n * r0 + S"
    by (simp add: ema_closed_form_def S_def)
  have "ema_closed_form r0 (bs @ [b])
      = (4/5) ^ Suc ?n * r0
        + ((\<Sum>i<?n. (1/5) * (4/5) ^ (?n - i) * (if (bs @ [b]) ! i then 1 else 0))
           + (1/5) * (if b then 1 else 0))"
    by (simp add: ema_closed_form_def)
  also have "\<dots> = (4/5) ^ Suc ?n * r0 + ((4/5) * S + (1/5) * (if b then 1 else 0))"
    by (simp only: s S_def)
  also have "\<dots> = 0.2 * (if b then 1 else 0) + 0.8 * ((4/5) ^ ?n * r0 + S)"
    by (simp add: algebra_simps)
  finally show ?thesis by (simp only: e)
qed

lemma update_rate_error:
  assumes r: "rate ms = Num x"
    and x: "\<bar>x - xs\<bar> \<le> 1 / 2 ^ 47" and xs: "0 \<le> xs" "xs \<le> 1"
  shows "\<exists>y. rate (updateInterventionEffectiveness b ms) = Num y
           \<and> \<bar>y - ((if b then 1 else 0) / 5 + 4 / 5 * xs)\<bar> \<le> 1 / 2 ^ 47"
proof -
  define e :: rat where "e = 1 / 2 ^ 53"
  define nv :: rat where "nv = (if b then 1 else 0)"
  define A where "A = fl (1 / 5)"
  define C where "C = fl (1 - A)"
  define t1 where "t1 = fl (A * nv)"
  define t2 where "t2 = fl (C * x)"
  define y where "y = fl (t1 + t2)"
  have e: "e = 1 / 9007199254740992" by (simp add: e_def)
  have B: "(1::rat) / 2 ^ 47 = 1 / 140737488355328" by simp
  have nv: "nv = 0 \<or> nv = 1" by (simp add: nv_def)
  have hA: "\<bar>A - 1 / 5\<bar> \<le> e"
    unfolding A_def e_def by (rule fl_err) simp
  then have A1: "\<bar>1 - A\<bar> < 2" "\<bar>A * nv\<bar> < 2"
    using nv by (auto simp: e abs_if split: if_splits)
  have hC: "\<bar>C - (1 - A)\<bar> \<le> e"
    unfolding C_def e_def by (rule fl_err) (rule A1)
  have ht1: "\<bar>t1 - A * nv\<bar> \<le> e"
    unfolding t1_def e_def by (rule fl_err) (rule A1)
  have xb: "\<bar>x\<bar> \<le> 1 + 1 / 2 ^ 47"
    using x xs by (simp add: abs_if split: if_splits)
  have Cb: "\<bar>C - 4 / 5\<bar> \<le> 2 * e" "\<bar>C\<bar> \<le> 1"
    using hA hC by (auto simp: e abs_if split: if_splits)
  have "\<bar>C * x\<bar> = \<bar>C\<bar> * \<bar>x\<bar>" by (simp add: abs_mult)
  also have "\<dots> \<le> 1 * \<bar>x\<bar>"
    using Cb(2) by (intro mult_right_mono) simp_all
  finally have Cx: "\<bar>C * x\<bar> \<le> 1 + 1 / 2 ^ 47"
    using xb by simp
  then have Cx2: "\<bar>C * x\<bar> < 2" by (simp add: B)
  have ht2: "\<bar>t2 - C * x\<bar> \<le> e"
    unfolding t2_def e_def by (rule fl_err) (rule Cx2)
  have "C * x - 4 / 5 * x = (C - 4 / 5) * x"
    by (simp add: algebra_simps)
  then have "\<bar>C * x - 4 / 5 * x\<bar> = \<bar>C - 4 / 5\<bar> * \<bar>x\<bar>"
    by (simp only: abs_mult)
  also have "\<dots> \<le> (2 * e) * (1 + 1 / 2 ^ 47)"
    using Cb(1) xb by (intro mult_mono) (simp_all add: e)
  finally have hCx: "\<bar>C * x - 4 / 5 * x\<bar> \<le> 3 * e"
    by (simp add: e)
  have hAn: "\<bar>A * nv - nv / 5\<bar> \<le> e"
    using nv hA by (auto simp: e)
  have sum: "\<bar>t1 + t2\<bar> < 2"
    using ht1 ht2 hAn hCx x xs nv by (auto simp: e B abs_if split: if_splits)
  have hy: "\<bar>y - (t1 + t2)\<bar> \<le> e"
    unfolding y_def e_def by (rule fl_err) (rule sum)
  have alpha: "to_number (1 / 5) = Num A"
    unfolding A_def by (rule to_number_small) simp
  have m1: "js_mul (Num A) (Num nv) = Num t1"
    using to_number_small [OF A1(2)] by (simp add: t1_def)
  have s1: "js_sub (Num 1) (Num A) = Num C"
    using to_number_small [OF A1(1)] by (simp add: js_sub_def C_def)
  have m2: "js_mul (Num C) (Num x) = Num t2"
    using to_number_small [OF Cx2] by (simp add: t2_def)
  have a1: "js_add (Num t1) (Num t2) = Num y"
    using to_number_small [OF sum] by (simp add: y_def)
  have "rate (updateInterventionEffectiveness b ms)
      = js_add (js_mul (to_number (1 / 5)) (Num nv))
               (js_mul (js_sub (Num 1) (to_number (1 / 5))) (Num x))"
    by (simp add: rate_update r nv_def)
  then have step: "rate (updateInterventionEffectiveness b ms) = Num y"
    by (simp only: alpha m1 s1 m2 a1)
  have "\<bar>y - (nv / 5 + 4 / 5 * xs)\<bar> \<le> 1 / 2 ^ 47"
    using hy ht1 ht2 hAn hCx x by (simp add: e B abs_if split: if_splits)
  then show ?thesis
    using step by (auto simp: nv_def)
qed

lemma ema_closed_form_unit:
  "0 \<le> r0 \<Longrightarrow> r0 \<le> 1 \<Longrightarrow> 0 \<le> ema_closed_form r0 bs \<and> ema_closed_form r0 bs \<le> 1"
proof (induction bs rule: rev_induct)
  case Nil
  then show ?case by (simp add: ema_closed_form_def)
next
  case (snoc b bs)
  then show ?case
    by (simp add: ema_closed_form_snoc)
qed

lemma rate_apply_samples_error:
  assumes "rate ms = Num r0" "0 \<le> r0" "r0 \<le> 1"
  shows "\<exists>y. rate (apply_samples ms bs) = Num y \<and> \<bar>y - ema_closed_form r0 bs\<bar> \<le> 1 / 2 ^ 47"
proof (induction bs rule: rev_induct)
  case Nil
  show ?case
    using assms by (simp add: apply_samples_def ema_closed_form_def)
next
  case (snoc b bs)
  then obtain x where x: "rate (apply_samples ms bs) = Num x"
      "\<bar>x - ema_closed_form r0 bs\<bar> \<le> 1 / 2 ^ 47"
    by blast
  have u: "0 \<le> ema_closed_form r0 bs" "ema_closed_form r0 bs \<le> 1"
    using ema_closed_form_unit [of r0 bs] assms by simp_all
  from update_rate_error [OF x u, of b]
  obtain y where "rate (updateInterventionEffectiveness b (apply_samples ms bs)) = Num y"
      "\<bar>y - ((if b then 1 else 0) / 5 + 4 / 5 * ema_closed_form r0 bs)\<bar> \<le> 1 / 2 ^ 47"
    by blast
  then show ?case
    by (auto simp: apply_samples_snoc ema_closed_form_snoc)
qed

lemma rate_new: "rate (MemorySystem_new t) = Num (1/2)"
  by (simp add: rate_def MemorySystem_new_def)

lemma rate_after_true:
  "rate (apply_samples (MemorySystem_new t) [True]) = Num (1351079888211149 / 2251799813685248)"
proof -
  have "js_add (js_mul (to_number (2/10)) (Num 1))
               (js_mul (js_sub (Num 1) (to_number (2/10))) (Num (1/2)))
        = Num (1351079888211149 / 2251799813685248)"
    by (simp add: js_sub_def to_number_small double_values)
  then show ?thesis
    using apply_samples_snoc [of "MemorySystem_new t" "[]" True]
    by (simp add: rate_update rate_new apply_samples_def)
qed

lemma rate_after_true_false:
  "rate (apply_samples (MemorySystem_new t) [True, False])
     = Num (4323455642275677 / 9007199254740992)"
proof -
  have "js_add (js_mul (to_number (2/10)) (Num 0))
               (js_mul (js_sub (Num 1) (to_number (2/10)))
                       (Num (1351079888211149 / 2251799813685248)))
        = Num (4323455642275677 / 9007199254740992)"
    by (simp add: js_sub_def to_number_small double_values fl_zero)
  then show ?thesis
    using apply_samples_snoc [of "MemorySystem_new t" "[True]" False]
    by (simp add: rate_update rate_after_true)
qed

text \<open>
  Claim C3, as stated, fails on the numbers it names: the code computes in doubles. From
  the starting rate 0.5 the sample true gives the double \<open>0.6000000000000001\<close>, which is
  neither 3/5 nor the double \<open>0.6\<close>, and a following false gives \<open>0.4800000000000001\<close>,
  which is neither 12/25 nor the double \<open>0.48\<close>.
\<close>

theorem updateInterventionEffectiveness_rounds:
  "rate (apply_samples (MemorySystem_new 0) [True]) = to_number (6000000000000001 / 10 ^ 16)
   \<and> rate (apply_samples (MemorySystem_new 0) [True]) \<noteq> Num (6 / 10)
   \<and> rate (apply_samples (MemorySystem_new 0) [True]) \<noteq> to_number (6 / 10)
   \<and> rate (apply_samples (MemorySystem_new 0) [True, False])
       = to_number (4800000000000001 / 10 ^ 16)
   \<and> rate (apply_samples (MemorySystem_new 0) [True, False]) \<noteq> Num (48 / 100)
   \<and> rate (apply_samples (MemorySystem_new 0) [True, False]) \<noteq> to_number (48 / 100)"
  by (simp add: rate_after_true rate_after_true_false to_number_small double_values)

text \<open>
  Claim C3, amended. Each call of \<open>updateInterventionEffectiveness\<close> maps the rate \<open>r\<close> and
  the sample \<open>b\<close> to \<open>0.2 * (if b then 1 else 0) + (1 - 0.2) * r\<close> evaluated in double
  arithmetic, every operation rounded to the nearest double. From a starting rate between
  0 and 1, over any sequence of samples applied in order, the rate stays finite and
  differs from the closed-form moving average by at most \<open>2^-47\<close>. From the starting rate
  0.5 the sample true gives \<open>0.6000000000000001\<close> and a following false gives
  \<open>0.4800000000000001\<close>.
\<close>

theorem updateInterventionEffectiveness_ema:
  "rate (updateInterventionEffectiveness b ms)
     = js_add (js_mul (to_number (2/10)) (if b then Num 1 else Num 0))
              (js_mul (js_sub (Num 1) (to_number (2/10))) (rate ms))
   \<and> (rate ms = Num r0 \<and> 0 \<le> r0 \<and> r0 \<le> 1 \<longrightarrow>
        (\<exists>y. rate (apply_samples ms bs) = Num y
             \<and> \<bar>y - ema_closed_form r0 bs\<bar> \<le> 1 / 2 ^ 47))
   \<and> rate (MemorySystem_new t) = to_number (5 / 10)
   \<and> rate (apply_samples (MemorySystem_new t) [True]) = to_number (6000000000000001 / 10 ^ 16)
   \<and> rate (apply_samples (MemorySystem_new t) [True, False])
       = to_number (4800000000000001 / 10 ^ 16)"
proof (intro conjI impI)
  show "rate (updateInterventionEffectiveness b ms)
     = js_add (js_mul (to_number (2/10)) (if b then Num 1 else Num 0))
              (js_mul (js_sub (Num 1) (to_number (2/10))) (rate ms))"
    by (rule rate_update)
next
  assume "rate ms = Num r0 \<and> 0 \<le> r0 \<and> r0 \<le> 1"
  then show "\<exists>y. rate (apply_samples ms bs) = Num y
      \<and> \<bar>y - ema_closed_form r0 bs\<bar> \<le> 1 / 2 ^ 47"
    using rate_apply_samples_error [of ms r0 bs] by blast
next
  show "rate (MemorySystem_new t) = to_number (5 / 10)"
    by (simp add: rate_new to_number_small double_values)
qed (simp_all add: rate_after_true rate_after_true_false to_number_small double_values)

theorem updateInterventionEffectiveness_ema_witness:
  "rate (MemorySystem_new 0) = Num (1 / 2)
   \<and> ema_closed_form (1 / 2) [True, False, False] = 48 / 125
   \<and> (\<exists>y. rate (apply_samples (MemorySystem_new 0) [True, False, False]) = Num y
          \<and> \<bar>y - 48 / 125\<bar> \<le> 1 / 2 ^ 47)"
proof -
  have c: "ema_closed_form (1 / 2) [True, False, False] = 48 / 125"
    by (simp add: ema_closed_form_def lessThan_Suc numeral_3_eq_3)
  from updateInterventionEffectiveness_ema
         [of True "MemorySystem_new 0" "1 / 2" "[True, False, False]" 0]
  show ?thesis
    by (simp add: rate_new c)
qed

subsection \<open>Loading and saving\<close>

text \<open>
  Claim C9. \<open>load\<close> never raises: for every state of the file it returns normally. When
  the file is missing or its content does not parse, the store is left as it was, which
  for a store fresh from the constructor is the cold start: no sessions, no open session,
  effectiveness rate 0.5, zero counters and empty histograms.
\<close>

theorem load_cold_start:
  "(\<exists>ms'. load f ms = Inr ms')
   \<and> load Missing ms = Inr ms \<and> load Unparseable ms = Inr ms
   \<and> load Missing (MemorySystem_new t) = Inr (MemorySystem_new t)
   \<and> load Unparseable (MemorySystem_new t) = Inr (MemorySystem_new t)
   \<and> sessions (MemorySystem_new t) = []
   \<and> currentSession (MemorySystem_new t) = None
   \<and> interventionEffectivenessRate (userProfile (MemorySystem_new t)) = Num (1/2)
   \<and> totalSessions (userProfile (MemorySystem_new t)) = 0
   \<and> productiveSessions (userProfile (MemorySystem_new t)) = 0
   \<and> totalInterventions (userProfile (MemorySystem_new t)) = 0
   \<and> productiveHoursMap (userProfile (MemorySystem_new t)) = []
   \<and> unproductiveHoursMap (userProfile (MemorySystem_new t)) = []"
  by (simp add: load_def load_try_def MemorySystem_new_def split: memory_file.split)

text \<open>
  Claim C8. After a \<open>save\<close> whose write succeeds, \<open>load\<close> on a fresh store over the
  written document returns normally with the saved session list (same order, same fields)
  and the saved profile.
\<close>

theorem save_load_roundtrip:
  "fst (save Written ms disk) = Inr ()
   \<and> load (snd (save Written ms disk)) (MemorySystem_new t)
       = Inr ((MemorySystem_new t)\<lparr>sessions := sessions ms, userProfile := userProfile ms\<rparr>)"
  by (simp add: save_def load_def load_try_def)

subsection \<open>Recording an intervention\<close>

text \<open>
  Claim C10. With no session open, \<open>recordIntervention\<close> returns normally and changes
  neither the store (so \<open>totalInterventions\<close> keeps its value) nor the file. With a session
  open it increments the session's counter and the profile's \<open>totalInterventions\<close> and
  then saves: a successful write leaves the new state in the file, a failed one is rethrown.
\<close>

theorem recordIntervention_without_session:
  "(currentSession ms = None \<longrightarrow> recordIntervention w ms disk = (Inr (), ms, disk))
   \<and> (\<forall>cs. currentSession ms = Some cs \<longrightarrow>
        (\<exists>r ms' disk'. recordIntervention w ms disk = (r, ms', disk')
           \<and> totalInterventions (userProfile ms') = totalInterventions (userProfile ms) + 1
           \<and> currentSession ms' = Some (cs\<lparr>interventionsCount := interventionsCount cs + 1\<rparr>)
           \<and> (w = Written \<longrightarrow> r = Inr () \<and>
                disk' = Document \<lparr>doc_sessions = Some (sessions ms'),
                                   doc_userProfile = Some (userProfile ms')\<rparr>)
           \<and> (\<forall>d. w = Failed d \<longrightarrow> r = Inl WriteFailed \<and> disk' = d)))"
  by (auto simp: recordIntervention_def save_def Let_def split: write_outcome.split)

theorem recordIntervention_without_session_witness:
  "currentSession (MemorySystem_new 0) = None
   \<and> recordIntervention Written (MemorySystem_new 0) Missing = (Inr (), MemorySystem_new 0, Missing)
   \<and> currentSession (fst (snd (startSession 5 Written (MemorySystem_new 0) Missing))) \<noteq> None
   \<and> totalInterventions (userProfile (fst (snd (recordIntervention Written
        (fst (snd (startSession 5 Written (MemorySystem_new 0) Missing))) Missing)))) = 1"
proof -
  let ?open = "fst (snd (startSession 5 Written (MemorySystem_new 0) Missing))"
  have closed: "currentSession (MemorySystem_new 0) = None"
    by (simp add: MemorySystem_new_def)
  have opened: "currentSession ?open =
      Some \<lparr>startTime = 5, endTime = None, wasProductive = True,
            interventionsCount = 0, activitySummary = []\<rparr>"
    by (simp add: startSession_def save_def)
  have zero: "totalInterventions (userProfile ?open) = 0"
    by (simp add: startSession_def save_def MemorySystem_new_def)
  from recordIntervention_without_session [of "MemorySystem_new 0" Written Missing] closed
  have a: "recordIntervention Written (MemorySystem_new 0) Missing
      = (Inr (), MemorySystem_new 0, Missing)"
    by simp
  from recordIntervention_without_session [of ?open Written Missing] opened
  have b: "totalInterventions (userProfile (fst (snd (recordIntervention Written ?open Missing))))
      = totalInterventions (userProfile ?open) + 1"
    by auto
  show ?thesis using closed a opened b zero by simp
qed

subsection \<open>Session accounting\<close>

lemma map_of_hours_incr:
  "map_of (hours_incr hour m) = (map_of m)(hour \<mapsto> hours_get m hour + 1)"
  by (simp add: hours_incr_def update_conv')

lemma hours_get_incr_same: "hours_get (hours_incr hour m) hour = hours_get m hour + 1"
  by (simp add: hours_get_def map_of_hours_incr)

lemma hours_get_incr_other: "h \<noteq> hour \<Longrightarrow> map_of (hours_incr hour m) h = map_of m h"
  by (simp add: map_of_hours_incr)

lemma accounted_new: "accounted (MemorySystem_new t)"
  by (simp add: accounted_def MemorySystem_new_def)

lemma accounted_startSession:
  "accounted ms \<Longrightarrow> accounted (fst (snd (startSession now w ms disk)))"
  by (simp add: accounted_def startSession_def Let_def split: prod.split)

lemma accounted_endSession:
  "accounted ms \<Longrightarrow>
   accounted (fst (snd (endSession getHours wasProd summary now_end now_upd w ms disk)))"
  by (simp add: accounted_def endSession_def updateUserProfile_def Let_def
           split: prod.split option.split)

lemma accounted_perform: "accounted (fst s) \<Longrightarrow> accounted (fst (perform getHours c s))"
  by (cases c; cases s) (simp_all add: accounted_startSession accounted_endSession)

lemma accounted_run_calls:
  "accounted (fst s) \<Longrightarrow> accounted (fst (run_calls getHours calls s))"
  unfolding run_calls_def
  by (induction calls arbitrary: s) (simp_all add: accounted_perform)

lemma endSession_profile:
  "currentSession ms = Some cs \<Longrightarrow>
   userProfile (fst (snd (endSession getHours wasProd summary now_end now_upd w ms disk)))
     = updateUserProfile getHours now_upd
         (cs\<lparr>endTime := Some now_end, wasProductive := wasProd, activitySummary := summary\<rparr>)
         (userProfile ms)"
  by (simp add: endSession_def Let_def split: prod.split)

text \<open>
  Claim C6. After any sequence of \<open>startSession\<close> and \<open>endSession\<close> calls on a fresh
  store, \<open>productiveSessions \<le> totalSessions\<close>. An \<open>endSession\<close> on a store with an open
  session adds exactly 1 to the bucket of the hour of that session's start time, in
  \<open>productiveHoursMap\<close> if it was productive and in \<open>unproductiveHoursMap\<close> otherwise; every
  other bucket of that map and the whole other map are unchanged.
\<close>

theorem session_accounting:
  "productiveSessions (userProfile (fst (run_calls getHours calls (MemorySystem_new t, disk))))
     \<le> totalSessions (userProfile (fst (run_calls getHours calls (MemorySystem_new t, disk))))
   \<and> (\<forall>cs. currentSession ms = Some cs \<longrightarrow>
        (let p = userProfile ms;
             p' = userProfile (fst (snd
                    (endSession getHours wasProd summary now_end now_upd w ms d)));
             hour = getHours (startTime cs);
             bumped = (if wasProd then productiveHoursMap else unproductiveHoursMap);
             other = (if wasProd then unproductiveHoursMap else productiveHoursMap)
         in hours_get (bumped p') hour = hours_get (bumped p) hour + 1
            \<and> (\<forall>h. h \<noteq> hour \<longrightarrow> map_of (bumped p') h = map_of (bumped p) h)
            \<and> other p' = other p
            \<and> totalSessions p' = totalSessions p + 1
            \<and> productiveSessions p' = productiveSessions p + (if wasProd then 1 else 0)))"
proof (rule conjI)
  have "accounted (fst (run_calls getHours calls (MemorySystem_new t, disk)))"
    by (rule accounted_run_calls) (simp add: accounted_new)
  then show "productiveSessions (userProfile (fst (run_calls getHours calls (MemorySystem_new t, disk))))
     \<le> totalSessions (userProfile (fst (run_calls getHours calls (MemorySystem_new t, disk))))"
    by (simp add: accounted_def)
next
  show "\<forall>cs. currentSession ms = Some cs \<longrightarrow>
        (let p = userProfile ms;
             p' = userProfile (fst (snd
                    (endSession getHours wasProd summary now_end now_upd w ms d)));
             hour = getHours (startTime cs);
             bumped = (if wasProd then productiveHoursMap else unproductiveHoursMap);
             other = (if wasProd then unproductiveHoursMap else productiveHoursMap)
         in hours_get (bumped p') hour = hours_get (bumped p) hour + 1
            \<and> (\<forall>h. h \<noteq> hour \<longrightarrow> map_of (bumped p') h = map_of (bumped p) h)
            \<and> other p' = other p
            \<and> totalSessions p' = totalSessions p + 1
            \<and> productiveSessions p' = productiveSessions p + (if wasProd then 1 else 0))"
  proof (intro allI impI)
    fix cs assume "currentSession ms = Some cs"
    then show "let p = userProfile ms;
             p' = userProfile (fst (snd
                    (endSession getHours wasProd summary now_end now_upd w ms d)));
             hour = getHours (startTime cs);
             bumped = (if wasProd then productiveHoursMap else unproductiveHoursMap);
             other = (if wasProd then unproductiveHoursMap else productiveHoursMap)
         in hours_get (bumped p') hour = hours_get (bumped p) hour + 1
            \<and> (\<forall>h. h \<noteq> hour \<longrightarrow> map_of (bumped p') h = map_of (bumped p) h)
            \<and> other p' = other p
            \<and> totalSessions p' = totalSessions p + 1
            \<and> productiveSessions p' = productiveSessions p + (if wasProd then 1 else 0)"
      by (cases wasProd)
         (simp_all add: endSession_profile updateUserProfile_def Let_def
            hours_get_incr_same hours_get_incr_other)
  qed
qed

theorem session_accounting_witness:
  "currentSession (fst (snd (startSession 32400000 Written (MemorySystem_new 0) Missing)))
     = Some \<lparr>startTime = 32400000, endTime = None, wasProductive = True,
             interventionsCount = 0, activitySummary = []\<rparr>
   \<and> utc_hours 32400000 = 9
   \<and> hours_get (productiveHoursMap (userProfile (fst (snd
        (endSession utc_hours True ''done'' 36000000 36000001 Written
           (fst (snd (startSession 32400000 Written (MemorySystem_new 0) Missing))) Missing))))) 9 = 1
   \<and> unproductiveHoursMap (userProfile (fst (snd
        (endSession utc_hours True ''done'' 36000000 36000001 Written
           (fst (snd (startSession 32400000 Written (MemorySystem_new 0) Missing))) Missing)))) = []
   \<and> productiveSessions (userProfile (fst (run_calls utc_hours
        [StartSession 32400000 Written, EndSession True ''done'' 36000000 36000001 Written,
         StartSession 50400000 (Failed Unparseable), EndSession False ''idle'' 54000000 54000001 Written]
        (MemorySystem_new 0, Missing))))
      \<le> totalSessions (userProfile (fst (run_calls utc_hours
        [StartSession 32400000 Written, EndSession True ''done'' 36000000 36000001 Written,
         StartSession 50400000 (Failed Unparseable), EndSession False ''idle'' 54000000 54000001 Written]
        (MemorySystem_new 0, Missing))))
   \<and> totalSessions (userProfile (fst (run_calls utc_hours
        [StartSession 32400000 Written, EndSession True ''done'' 36000000 36000001 Written,
         StartSession 50400000 (Failed Unparseable), EndSession False ''idle'' 54000000 54000001 Written]
        (MemorySystem_new 0, Missing)))) = 2"
proof -
  let ?open = "fst (snd (startSession 32400000 Written (MemorySystem_new 0) Missing))"
  let ?calls = "[StartSession 32400000 Written, EndSession True ''done'' 36000000 36000001 Written,
         StartSession 50400000 (Failed Unparseable), EndSession False ''idle'' 54000000 54000001 Written]"
  have o: "currentSession ?open
     = Some \<lparr>startTime = 32400000, endTime = None, wasProductive = True,
             interventionsCount = 0, activitySummary = []\<rparr>"
    by (simp add: startSession_def save_def)
  have h: "utc_hours 32400000 = 9"
    by (simp add: utc_hours_def)
  have t: "totalSessions (userProfile (fst (run_calls utc_hours ?calls (MemorySystem_new 0, Missing)))) = 2"
    by (simp add: run_calls_def startSession_def endSession_def save_def updateUserProfile_def
          MemorySystem_new_def Let_def)
  let ?closed = "fst (snd (endSession utc_hours True ''done'' 36000000 36000001 Written ?open Missing))"
  from session_accounting [of utc_hours ?calls 0 Missing ?open True "''done''" 36000000 36000001
      Written Missing] o
  have inst: "productiveSessions (userProfile (fst (run_calls utc_hours ?calls (MemorySystem_new 0, Missing))))
       \<le> totalSessions (userProfile (fst (run_calls utc_hours ?calls (MemorySystem_new 0, Missing))))
     \<and> hours_get (productiveHoursMap (userProfile ?closed)) 9
         = hours_get (productiveHoursMap (userProfile ?open)) 9 + 1
     \<and> unproductiveHoursMap (userProfile ?closed) = unproductiveHoursMap (userProfile ?open)"
    by (simp add: Let_def h)
  have base: "hours_get (productiveHoursMap (userProfile ?open)) 9 = 0"
      "unproductiveHoursMap (userProfile ?open) = []"
    by (simp_all add: startSession_def save_def MemorySystem_new_def hours_get_def)
  show ?thesis
    using o h t inst base by simp
qed

subsection \<open>Top hours\<close>



lemma length_insort_cmp: "length (insort_cmp cmp x ys) = Suc (length ys)"
  by (induction ys) auto

lemma length_sort_cmp: "length (sort_cmp cmp xs) = length xs"
  by (induction xs) (simp_all add: sort_cmp_def length_insort_cmp)













subsection \<open>Decision engine: auxiliary facts\<close>

lemma addToHistory_fold:
  "length h \<le> maxHistorySize \<Longrightarrow>
   foldl addToHistory h xs = drop (length (h @ xs) - maxHistorySize) (h @ xs)"
proof (induction xs rule: rev_induct)
  case Nil
  then show ?case by simp
next
  case (snoc x xs)
  let ?all = "h @ xs"
  let ?kept = "drop (length ?all - maxHistorySize) ?all"
  have prev: "foldl addToHistory h xs = ?kept"
    using snoc by simp
  have step: "foldl addToHistory h (xs @ [x]) = addToHistory ?kept x"
    by (simp add: prev)
  show ?case
  proof (cases "length ?all < maxHistorySize")
    case True
    then have "addToHistory ?kept x = ?all @ [x]"
      by (simp add: addToHistory_def Let_def)
    with True step show ?thesis by simp
  next
    case False
    define kept where "kept = ?kept"
    have len: "length kept = maxHistorySize"
      using False by (simp add: kept_def)
    have "addToHistory kept x = tl (kept @ [x])"
      by (simp add: addToHistory_def Let_def len)
    also have "\<dots> = tl (drop (length ?all - maxHistorySize) (?all @ [x]))"
      using False by (simp add: kept_def)
    also have "\<dots> = drop (Suc (length ?all - maxHistorySize)) (?all @ [x])"
      by (simp only: drop_Suc tl_drop)
    also have "Suc (length ?all - maxHistorySize) = length (h @ xs @ [x]) - maxHistorySize"
      using False by simp
    finally show ?thesis using step by (simp add: kept_def)
  qed
qed

lemma parseAgentDecision_cases:
  "parseAgentDecision parse now response = getDefaultDecision now
   \<or> (\<exists>m. json_match response = Some m
          \<and> parse m = Some (parseAgentDecision parse now response)
          \<and> typeof (property (parseAgentDecision parse now response) ''shouldIntervene'') = ''boolean''
          \<and> truthy (property (parseAgentDecision parse now response) ''intervention'')
          \<and> truthy (property (parseAgentDecision parse now response) ''reasoning''))"
  by (auto simp: parseAgentDecision_def parseAgentDecision_try_def
           split: option.splits if_splits)

lemma default_shouldIntervene:
  "property (getDefaultDecision now) ''shouldIntervene'' = Some (JBool False)"
  by (simp add: getDefaultDecision_def property_def)

lemma default_kind: "decision_kind (getDefaultDecision now) = Some (JStr ''none'')"
  by (simp add: getDefaultDecision_def decision_kind_def property_def)


lemma default_structure:
  "typeof (property (getDefaultDecision now) ''shouldIntervene'') = ''boolean''"
  "truthy (property (getDefaultDecision now) ''intervention'')"
  "truthy (property (getDefaultDecision now) ''reasoning'')"
  by (simp_all add: getDefaultDecision_def property_def typeof_def truthy_def)

lemma truthy_Some: "truthy v \<Longrightarrow> \<exists>x. v = Some x"
  by (cases v) (simp_all add: truthy_def)

lemma truthy_not_empty_string: "truthy v \<Longrightarrow> v \<noteq> Some (JStr [])"
  by (auto simp: truthy_def)

lemma intervening_has_intervention:
  assumes "truthy (property (parseAgentDecision parse now response) ''shouldIntervene'')"
  shows "\<exists>i. property (parseAgentDecision parse now response) ''intervention'' = Some i"
proof -
  have "parseAgentDecision parse now response \<noteq> getDefaultDecision now"
    using assms by (auto simp: default_shouldIntervene truthy_def)
  then have "truthy (property (parseAgentDecision parse now response) ''intervention'')"
    using parseAgentDecision_cases [of parse now response] by blast
  then show ?thesis by (rule truthy_Some)
qed

lemma decideIntervention_Throws:
  "decideIntervention parse now Throws history = Inr (getDefaultDecision now, history)"
  by (simp add: decideIntervention_def decideIntervention_try_def)

lemma decideIntervention_Completes:
  "decideIntervention parse now (Completes events) history =
     (let decision = parseAgentDecision parse now (responseText events)
      in Inr (decision,
              if truthy (property decision ''shouldIntervene'')
              then (case property decision ''intervention'' of
                      None \<Rightarrow> history | Some i \<Rightarrow> addToHistory history i)
              else history))"
  by (simp add: decideIntervention_def decideIntervention_try_def Let_def split: option.split)


subsection \<open>Intervention history\<close>

text \<open>
  A decision that intervenes has its intervention appended by \<open>addToHistory\<close>; this ties
  the history to the sequence of intervening decisions.
\<close>

lemma decideIntervention_appends:
  "decideIntervention parse now run history = Inr (d, h') \<Longrightarrow>
   property d ''shouldIntervene'' = Some (JBool True) \<Longrightarrow>
   \<exists>i. property d ''intervention'' = Some i \<and> h' = addToHistory history i"
proof (cases run)
  case Throws
  assume "decideIntervention parse now run history = Inr (d, h')"
    and "property d ''shouldIntervene'' = Some (JBool True)"
  with Throws show ?thesis
    by (auto simp: decideIntervention_Throws default_shouldIntervene)
next
  case (Completes events)
  assume r: "decideIntervention parse now run history = Inr (d, h')"
    and s: "property d ''shouldIntervene'' = Some (JBool True)"
  from r Completes have d: "d = parseAgentDecision parse now (responseText events)"
    by (simp add: decideIntervention_Completes Let_def)
  from s have t: "truthy (property d ''shouldIntervene'')"
    by (simp add: truthy_def)
  then obtain i where i: "property d ''intervention'' = Some i"
    using intervening_has_intervention [of parse now "responseText events"] d by auto
  from r Completes d t i have "h' = addToHistory history i"
    by (simp add: decideIntervention_Completes Let_def)
  with i show ?thesis by blast
qed

text \<open>
  Claim C4. A decision that intervenes appends its intervention with \<open>addToHistory\<close>, and
  appending \<open>N + k\<close> records to the empty history, with \<open>N = maxHistorySize = 10\<close>, leaves
  a history of length exactly \<open>N\<close>: the last \<open>N\<close> records in the order they were appended.
  The \<open>k\<close> records dropped are the first ones appended, so the oldest go first.
\<close>

theorem history_bound:
  "(length xs = maxHistorySize + k \<longrightarrow>
      length (foldl addToHistory [] xs) = maxHistorySize
      \<and> foldl addToHistory [] xs = drop k xs
      \<and> take k xs @ foldl addToHistory [] xs = xs)
   \<and> (decideIntervention parse now run history = Inr (d, h')
        \<and> property d ''shouldIntervene'' = Some (JBool True) \<longrightarrow>
      (\<exists>i. property d ''intervention'' = Some i \<and> h' = addToHistory history i))
   \<and> maxHistorySize = 10"
proof (intro conjI impI)
  assume "length xs = maxHistorySize + k"
  then have "foldl addToHistory [] xs = drop k xs"
    using addToHistory_fold [of "[]" xs] by simp
  then show "foldl addToHistory [] xs = drop k xs"
    and "take k xs @ foldl addToHistory [] xs = xs"
    by simp_all
  with \<open>length xs = maxHistorySize + k\<close>
  show "length (foldl addToHistory [] xs) = maxHistorySize"
    by simp
next
  assume "decideIntervention parse now run history = Inr (d, h')
        \<and> property d ''shouldIntervene'' = Some (JBool True)"
  then show "\<exists>i. property d ''intervention'' = Some i \<and> h' = addToHistory history i"
    using decideIntervention_appends by blast
next
  show "maxHistorySize = 10" by (simp add: maxHistorySize_def)
qed

theorem history_bound_witness:
  "length [1, 2, 3, 4, 5, 6, 7, 8, 9, 10, 11, 12 :: nat] = maxHistorySize + 2
   \<and> foldl addToHistory [] [1, 2, 3, 4, 5, 6, 7, 8, 9, 10, 11, 12 :: nat]
       = [3, 4, 5, 6, 7, 8, 9, 10, 11, 12]
   \<and> property (fst (projr (decideIntervention JSON_parse 0 (Completes [Text reply_unknown_kind])
         [JStr ''earlier'']))) ''shouldIntervene'' = Some (JBool True)
   \<and> snd (projr (decideIntervention JSON_parse 0 (Completes [Text reply_unknown_kind])
         [JStr ''earlier'']))
       = addToHistory [JStr ''earlier'']
           (JObj [(''type'', JStr ''siren''), (''message'', JStr ''Wake up''),
                  (''timestamp'', JNum 1700000000000)])"
proof -
  let ?xs = "[1, 2, 3, 4, 5, 6, 7, 8, 9, 10, 11, 12 :: nat]"
  let ?d = "JObj [(''shouldIntervene'', JBool True),
                  (''intervention'', JObj [(''type'', JStr ''siren''),
                                           (''message'', JStr ''Wake up''),
                                           (''timestamp'', JNum 1700000000000)]),
                  (''reasoning'', JStr ''idle for long''), (''confidence'', JNum 90)]"
  have len: "length ?xs = maxHistorySize + 2"
    by (simp add: maxHistorySize_def)
  let ?i = "JObj [(''type'', JStr ''siren''), (''message'', JStr ''Wake up''),
                  (''timestamp'', JNum 1700000000000)]"
  have run: "decideIntervention JSON_parse 0 (Completes [Text reply_unknown_kind])
      [JStr ''earlier''] = Inr (?d, [JStr ''earlier'', ?i])"
    by code_simp
  have yes: "property ?d ''shouldIntervene'' = Some (JBool True)"
    by (simp add: property_def)
  have i: "property ?d ''intervention'' = Some ?i"
    by (simp add: property_def)
  note inst = history_bound [of ?xs 2 JSON_parse 0 "Completes [Text reply_unknown_kind]"
      "[JStr ''earlier'']" ?d "[JStr ''earlier'', ?i]"]
  from inst len have a: "foldl addToHistory [] ?xs = drop 2 ?xs"
    by blast
  from inst run yes
  have "\<exists>j. property ?d ''intervention'' = Some j
      \<and> [JStr ''earlier'', ?i] = addToHistory [JStr ''earlier''] j"
    by blast
  then have b: "[JStr ''earlier'', ?i] = addToHistory [JStr ''earlier''] ?i"
    by (simp only: i option.inject ex_simps simp_thms)
  have c: "snd (projr (decideIntervention JSON_parse 0 (Completes [Text reply_unknown_kind])
      [JStr ''earlier''])) = [JStr ''earlier'', ?i]"
    and e: "fst (projr (decideIntervention JSON_parse 0 (Completes [Text reply_unknown_kind])
      [JStr ''earlier''])) = ?d"
    by (simp_all only: run sum.sel fst_conv snd_conv)
  show ?thesis
    by (simp only: len a c e b [symmetric] yes) simp
qed

text \<open>
  Claim C5, as stated, fails where the last record is already scored: the call is not a
  no-op there. A record scored effective is rescored by a later call with \<open>False\<close>.
\<close>

theorem recordInterventionEffectiveness_rescores:
  "property (last [unscored_reminder, scored_alarm]) ''wasEffective'' = Some (JBool True)
   \<and> recordInterventionEffectiveness False [unscored_reminder, scored_alarm]
       \<noteq> Inr [unscored_reminder, scored_alarm]
   \<and> recordInterventionEffectiveness False [unscored_reminder, scored_alarm]
       = Inr [unscored_reminder,
              JObj [(''type'', JStr ''alarm''), (''message'', JStr ''Back to work''),
                    (''timestamp'', JNum 1700000000000), (''wasEffective'', JBool False)]]"
  by (simp add: recordInterventionEffectiveness_def assign_property_def scored_alarm_def
        unscored_reminder_def property_def)

lemma recordInterventionEffectiveness_nonempty:
  "h \<noteq> [] \<Longrightarrow>
   recordInterventionEffectiveness b h =
     (case assign_property (last h) ''wasEffective'' (JBool b) of
        Inl e \<Rightarrow> Inl e
      | Inr scored \<Rightarrow> Inr (butlast h @ [scored]))"
proof -
  assume ne: "h \<noteq> []"
  then have idx: "h ! (length h - Suc 0) = last h"
    by (simp add: last_conv_nth)
  have upd: "h[length h - Suc 0 := x] = butlast h @ [x]" for x
    using ne by (induction h) (auto split: nat.splits)
  show ?thesis
    using ne
    by (simp add: recordInterventionEffectiveness_def Let_def idx upd split: sum.split)
qed

lemma recordInterventionEffectiveness_empty: "recordInterventionEffectiveness b [] = Inr []"
  by (simp add: recordInterventionEffectiveness_def)

lemma property_assigned:
  "property (JObj (AList.update k v members)) k' = (if k' = k then Some v else property (JObj members) k')"
  "property (JArr elements (AList.update k v named)) k'
     = (if k' = k then Some v else property (JArr elements named) k')"
  by (simp_all add: property_def update_conv')

text \<open>
  Claim C5, amended. On the empty history \<open>recordInterventionEffectiveness\<close> returns the
  empty history and does not raise. On a history whose last record is an object (or an
  array) it sets the \<open>wasEffective\<close> field of that record to the given value, whether or
  not the record was scored before: every other field of that record reads as before, and
  every other record is unchanged. Where the last entry is \<open>null\<close> or a primitive value the
  assignment raises a \<open>TypeError\<close>.
\<close>

theorem recordInterventionEffectiveness_last_only:
  "recordInterventionEffectiveness b [] = Inr []
   \<and> (h \<noteq> [] \<and> last h = JObj members \<longrightarrow>
        recordInterventionEffectiveness b h
          = Inr (butlast h @ [JObj (AList.update ''wasEffective'' (JBool b) members)])
        \<and> property (JObj (AList.update ''wasEffective'' (JBool b) members)) ''wasEffective''
            = Some (JBool b)
        \<and> (\<forall>k. k \<noteq> ''wasEffective'' \<longrightarrow>
              property (JObj (AList.update ''wasEffective'' (JBool b) members)) k
                = property (last h) k))
   \<and> (h \<noteq> [] \<and> last h = JArr elements named \<longrightarrow>
        recordInterventionEffectiveness b h
          = Inr (butlast h @ [JArr elements (AList.update ''wasEffective'' (JBool b) named)])
        \<and> (\<forall>k. k \<noteq> ''wasEffective'' \<longrightarrow>
              property (JArr elements (AList.update ''wasEffective'' (JBool b) named)) k
                = property (last h) k))
   \<and> (h \<noteq> [] \<and> (last h = JNull \<or> (\<exists>x. last h = JBool x) \<or> (\<exists>x. last h = JNum x)
                  \<or> (\<exists>x. last h = JStr x)) \<longrightarrow>
        recordInterventionEffectiveness b h = Inl TypeError)"
  by (auto simp: recordInterventionEffectiveness_nonempty recordInterventionEffectiveness_empty
        property_assigned assign_property_def)

theorem recordInterventionEffectiveness_last_only_witness:
  "last [scored_alarm, unscored_reminder] = unscored_reminder
   \<and> recordInterventionEffectiveness True [scored_alarm, unscored_reminder]
       = Inr [scored_alarm,
              JObj [(''type'', JStr ''gentle_reminder''), (''message'', JStr ''Still there?''),
                    (''timestamp'', JNum 1700000060000), (''wasEffective'', JBool True)]]
   \<and> recordInterventionEffectiveness True [scored_alarm, JStr ''alarm''] = Inl TypeError"
proof -
  let ?members = "[(''type'', JStr ''gentle_reminder''), (''message'', JStr ''Still there?''),
                   (''timestamp'', JNum 1700000060000)]"
  have l: "last [scored_alarm, unscored_reminder] = JObj ?members"
    by (simp add: unscored_reminder_def)
  from recordInterventionEffectiveness_last_only
         [of True "[scored_alarm, unscored_reminder]" ?members] l
  have a: "recordInterventionEffectiveness True [scored_alarm, unscored_reminder]
       = Inr (butlast [scored_alarm, unscored_reminder]
               @ [JObj (AList.update ''wasEffective'' (JBool True) ?members)])"
    by blast
  from recordInterventionEffectiveness_last_only [of True "[scored_alarm, JStr ''alarm'']"]
  have b: "recordInterventionEffectiveness True [scored_alarm, JStr ''alarm''] = Inl TypeError"
    by simp
  show ?thesis
    using a b by (simp add: unscored_reminder_def)
qed


subsection \<open>Failing closed\<close>




subsection \<open>What parsing checks\<close>

text \<open>
  Claim C2, as stated, fails: the parsed payload is returned as it is. A reply that
  declines to intervene and names the kind \<open>alarm\<close> yields a decision with
  \<open>shouldIntervene = false\<close> and a kind other than \<open>none\<close>; a reply with the kind \<open>siren\<close>,
  which is outside the fixed set, yields a decision of that kind and puts it in the history.
\<close>

theorem decideIntervention_unvalidated:
  "decideIntervention JSON_parse 0 (Completes [Text reply_declining_alarm]) []
     = Inr (JObj [(''shouldIntervene'', JBool False),
                  (''intervention'', JObj [(''type'', JStr ''alarm''),
                                           (''message'', JStr ''Back to work''),
                                           (''timestamp'', JNum 1700000000000)]),
                  (''reasoning'', JStr ''idle''), (''confidence'', JNum 85)], [])
   \<and> decision_kind (fst (projr (decideIntervention JSON_parse 0
          (Completes [Text reply_declining_alarm]) []))) \<noteq> Some (JStr ''none'')
   \<and> decision_kind (fst (projr (decideIntervention JSON_parse 0
          (Completes [Text reply_unknown_kind]) []))) = Some (JStr ''siren'')
   \<and> Some (JStr ''siren'') \<notin> kind_enum
   \<and> snd (projr (decideIntervention JSON_parse 0 (Completes [Text reply_unknown_kind]) []))
       = [JObj [(''type'', JStr ''siren''), (''message'', JStr ''Wake up''),
                (''timestamp'', JNum 1700000000000)]]"
proof -
  have a: "decideIntervention JSON_parse 0 (Completes [Text reply_declining_alarm]) []
     = Inr (JObj [(''shouldIntervene'', JBool False),
                  (''intervention'', JObj [(''type'', JStr ''alarm''),
                                           (''message'', JStr ''Back to work''),
                                           (''timestamp'', JNum 1700000000000)]),
                  (''reasoning'', JStr ''idle''), (''confidence'', JNum 85)], [])"
    by code_simp
  have b: "decideIntervention JSON_parse 0 (Completes [Text reply_unknown_kind]) []
     = Inr (JObj [(''shouldIntervene'', JBool True),
                  (''intervention'', JObj [(''type'', JStr ''siren''),
                                           (''message'', JStr ''Wake up''),
                                           (''timestamp'', JNum 1700000000000)]),
                  (''reasoning'', JStr ''idle for long''), (''confidence'', JNum 90)],
            [JObj [(''type'', JStr ''siren''), (''message'', JStr ''Wake up''),
                   (''timestamp'', JNum 1700000000000)]])"
    by code_simp
  show ?thesis
    by (simp add: a b decision_kind_def property_def kind_enum_def)
qed

text \<open>
  Claim C2, amended. For every reply, the decision returned has a boolean
  \<open>shouldIntervene\<close>, a truthy \<open>intervention\<close> and a truthy \<open>reasoning\<close> (so not the empty
  string), and it is either the default decision, with \<open>shouldIntervene = false\<close> and kind
  \<open>none\<close>, or the value parsed from the brace-delimited span of the reply, unchanged.
\<close>

theorem decideIntervention_structure:
  "\<exists>d h. decideIntervention parse now run history = Inr (d, h)
      \<and> typeof (property d ''shouldIntervene'') = ''boolean''
      \<and> truthy (property d ''intervention'')
      \<and> truthy (property d ''reasoning'')
      \<and> property d ''reasoning'' \<noteq> Some (JStr [])
      \<and> ((d = getDefaultDecision now
           \<and> property d ''shouldIntervene'' = Some (JBool False)
           \<and> decision_kind d = Some (JStr ''none''))
          \<or> (\<exists>events m. run = Completes events
                \<and> json_match (responseText events) = Some m \<and> parse m = Some d))"
proof (cases run)
  case Throws
  have "decideIntervention parse now run history = Inr (getDefaultDecision now, history)"
    using Throws by (simp add: decideIntervention_Throws)
  then show ?thesis
    using default_structure [of now] default_shouldIntervene [of now] default_kind [of now]
      truthy_not_empty_string [of "property (getDefaultDecision now) ''reasoning''"]
    by blast
next
  case (Completes events)
  let ?d = "parseAgentDecision parse now (responseText events)"
  obtain h where r: "decideIntervention parse now run history = Inr (?d, h)"
    using Completes by (simp add: decideIntervention_Completes Let_def)
  from parseAgentDecision_cases [of parse now "responseText events"]
  show ?thesis
  proof
    assume d: "?d = getDefaultDecision now"
    with r have "decideIntervention parse now run history = Inr (getDefaultDecision now, h)"
      by simp
    then show ?thesis
      using default_structure [of now] default_shouldIntervene [of now] default_kind [of now]
        truthy_not_empty_string [of "property (getDefaultDecision now) ''reasoning''"]
      by blast
  next
    assume "\<exists>m. json_match (responseText events) = Some m \<and> parse m = Some ?d
          \<and> typeof (property ?d ''shouldIntervene'') = ''boolean''
          \<and> truthy (property ?d ''intervention'')
          \<and> truthy (property ?d ''reasoning'')"
    with r Completes show ?thesis
      by (auto simp: truthy_def)
  qed
qed


end
